theory Spec2Isabelle
  imports Main "HOL-Library.Log_Nat"
begin

section \<open>Binary64 numbers\<close>

text \<open>
  A JavaScript number is an IEEE 754 binary64 value. \<open>Finite k\<close> is the number
  \<^verbatim>\<open>k * 2^-1074\<close>: every finite binary64 number is such a multiple, with
  \<open>k = m * 2 ^ j\<close> for some \<open>\<bar>m\<bar> < 2 ^ 53\<close> and \<open>\<bar>k\<bar> < 2 ^ 2098\<close>. The two zeros are
  one value, \<open>Finite 0\<close>: the program adds, subtracts, multiplies and compares, and
  these operations tell the zeros apart in nothing but the sign of a zero result. There
  is one NaN.
\<close>

datatype double = Finite int | PosInf | NegInf | NaN

text \<open>\<^verbatim>\<open>2^1024\<close> in units of \<^verbatim>\<open>2^-1074\<close>.\<close>

definition overflowThreshold :: int where
  "overflowThreshold = 2 ^ 2098"

text \<open>\<open>a / 2 ^ d\<close> rounded to the nearest integer, ties to the even one, for \<open>0 \<le> a\<close>.\<close>

definition roundHalfEven :: "int \<Rightarrow> nat \<Rightarrow> int" where
  "roundHalfEven a d =
     (let q = a div 2 ^ d; r = a mod 2 ^ d
      in if 2 ^ d < 2 * r \<or> (2 * r = 2 ^ d \<and> odd q) then q + 1 else q)"

text \<open>
  The exact number \<^verbatim>\<open>n * 2^-(1074 + x)\<close> rounded to binary64, to nearest with ties
  to even: the magnitude keeps 53 significant bits, or the bits down to \<^verbatim>\<open>2^-1074\<close>
  if these are fewer (a subnormal result), and a rounded magnitude of \<^verbatim>\<open>2^1024\<close> or
  more is an infinity.
\<close>

definition round64 :: "nat \<Rightarrow> int \<Rightarrow> double" where
  "round64 x n =
     (let d = max (nat (bitlen \<bar>n\<bar> - 53)) x;
          k = roundHalfEven \<bar>n\<bar> d * 2 ^ (d - x)
      in if overflowThreshold \<le> k then (if n < 0 then NegInf else PosInf)
         else Finite (if n < 0 then - k else k))"

text \<open>
  Negation, \<^verbatim>\<open>+\<close>, \<^verbatim>\<open>-\<close>, \<^verbatim>\<open>*\<close> and \<^verbatim>\<open><\<close> on numbers. A sum or product of finite
  numbers is the exact result, rounded; \<^verbatim>\<open>a > b\<close> is \<open>dlt b a\<close>.
\<close>

fun dneg :: "double \<Rightarrow> double" where
  "dneg (Finite a) = Finite (- a)"
| "dneg PosInf = NegInf"
| "dneg NegInf = PosInf"
| "dneg NaN = NaN"

fun dadd :: "double \<Rightarrow> double \<Rightarrow> double" where
  "dadd NaN y = NaN"
| "dadd x NaN = NaN"
| "dadd (Finite a) (Finite b) = round64 0 (a + b)"
| "dadd PosInf NegInf = NaN"
| "dadd NegInf PosInf = NaN"
| "dadd PosInf y = PosInf"
| "dadd NegInf y = NegInf"
| "dadd x PosInf = PosInf"
| "dadd x NegInf = NegInf"

definition dsub :: "double \<Rightarrow> double \<Rightarrow> double" where
  "dsub x y = dadd x (dneg y)"

fun dmul :: "double \<Rightarrow> double \<Rightarrow> double" where
  "dmul NaN y = NaN"
| "dmul x NaN = NaN"
| "dmul (Finite a) (Finite b) = round64 1074 (a * b)"
| "dmul (Finite a) PosInf = (if a = 0 then NaN else if 0 < a then PosInf else NegInf)"
| "dmul (Finite a) NegInf = (if a = 0 then NaN else if 0 < a then NegInf else PosInf)"
| "dmul PosInf (Finite b) = (if b = 0 then NaN else if 0 < b then PosInf else NegInf)"
| "dmul NegInf (Finite b) = (if b = 0 then NaN else if 0 < b then NegInf else PosInf)"
| "dmul PosInf PosInf = PosInf"
| "dmul PosInf NegInf = NegInf"
| "dmul NegInf PosInf = NegInf"
| "dmul NegInf NegInf = PosInf"

fun dlt :: "double \<Rightarrow> double \<Rightarrow> bool" where
  "dlt NaN y = False"
| "dlt x NaN = False"
| "dlt (Finite a) (Finite b) = (a < b)"
| "dlt x NegInf = False"
| "dlt PosInf y = False"
| "dlt NegInf y = True"
| "dlt x PosInf = True"

text \<open>
  \<open>dyadic m e\<close> is the binary64 number nearest to \<open>m * 2 ^ e\<close>, which is that number
  itself when \<open>\<bar>m\<bar> < 2 ^ 53\<close> and \<open>- 1074 \<le> e \<le> 971\<close>. So \<open>dyadic 3 (- 1)\<close> is
  \<^verbatim>\<open>1.5\<close>, and \<^verbatim>\<open>0.1\<close> is \<open>dyadic 3602879701896397 (- 55)\<close>.
\<close>

definition dyadic :: "int \<Rightarrow> int \<Rightarrow> double" where
  "dyadic m e =
     (if - 1074 \<le> e then round64 0 (m * 2 ^ nat (e + 1074))
      else round64 (nat (- 1074 - e)) m)"

text \<open>
  Not every \<open>Finite k\<close> is a binary64 number: it is one if rounding leaves it as it
  is. \<open>isDouble\<close> holds of the binary64 values, \<open>isFiniteDouble\<close> of the finite ones.
\<close>

fun isDouble :: "double \<Rightarrow> bool" where
  "isDouble (Finite k) = (round64 0 k = Finite k)"
| "isDouble x = True"

fun isFiniteDouble :: "double \<Rightarrow> bool" where
  "isFiniteDouble (Finite k) = (round64 0 k = Finite k)"
| "isFiniteDouble x = False"

text \<open>The pairs for which \<open>dyadic m e\<close> is \<open>m * 2 ^ e\<close> exactly.\<close>

definition canonical :: "int \<Rightarrow> int \<Rightarrow> bool" where
  "canonical m e = (abs m < 2 ^ 53 \<and> - 1074 \<le> e \<and> e \<le> 971)"

section \<open>The time line\<close>

text \<open>
  \<^verbatim>\<open>src/twisty/anim.ts\<close> uses the types of the namespace \<^verbatim>\<open>TimeLine\<close>, whose
  declarations are in another file. \<^verbatim>\<open>Duration\<close> and \<^verbatim>\<open>TimeStamp\<close> are JavaScript
  numbers.
\<close>

type_synonym Duration = double
type_synonym TimeStamp = double

datatype Direction = Forwards | Paused | Backwards

datatype BreakPointType = Move | EntireMoveSequence

text \<open>
  Modelled from the spec: the numeric values of the enum \<^verbatim>\<open>TimeLine.Direction\<close>, which
  \<^verbatim>\<open>timeScaling\<close> multiplies by the tempo. The enum's declaration is not in
  \<^verbatim>\<open>anim.ts\<close>; the spec gives \<^verbatim>\<open>{Forwards = +1, Paused = 0, Backwards = -1}\<close>.
\<close>

fun directionValue :: "Direction \<Rightarrow> double" where
  "directionValue Forwards = dyadic 1 0"
| "directionValue Paused = dyadic 0 0"
| "directionValue Backwards = dyadic (- 1) 0"

text \<open>
  The interface \<^verbatim>\<open>TimeLine.BreakPointModel\<close>: the model receives an implementation in
  its constructor and only calls these three methods. It is a parameter of every
  function below.
\<close>

record BreakPointModel =
  firstBreakPoint :: Duration
  lastBreakPoint :: Duration
  breakPoint :: "Direction \<Rightarrow> BreakPointType \<Rightarrow> Duration \<Rightarrow> Duration"

section \<open>Observable calls\<close>

text \<open>
  An observer is an object; the dispatcher compares observers by identity, so an
  observer is modelled by its identity. What the program does to the outside is a
  sequence of calls: a method of an observer, or \<^verbatim>\<open>breakPoint\<close> of the break point
  model. The calls are recorded in order. Observers are passive: their methods do not
  call back into the model.
\<close>

type_synonym observer = nat

datatype Event =
    CursorObserverCall observer Duration
  | DirectionObserverCall observer Direction
  | BreakPointCall Direction BreakPointType Duration

section \<open>Dispatcher\<close>

text \<open>
  A JavaScript \<^verbatim>\<open>Set\<close> iterates in insertion order and holds each element once: a
  list, with \<^verbatim>\<open>has\<close> and \<^verbatim>\<open>add\<close> as follows.
\<close>

definition has :: "'a list \<Rightarrow> 'a \<Rightarrow> bool" where
  "has xs x = (x \<in> set xs)"

definition add :: "'a list \<Rightarrow> 'a \<Rightarrow> 'a list" where
  "add xs x = (if x \<in> set xs then xs else xs @ [x])"

record Dispatcher =
  cursorObservers :: "observer list"
  directionObservers :: "observer list"

text \<open>
  The two registration methods throw a string. The result is the thrown value, if any,
  and the dispatcher as the call leaves it.
\<close>

definition registerCursorObserver :: "observer \<Rightarrow> Dispatcher \<Rightarrow> string option \<times> Dispatcher" where
  "registerCursorObserver obs d =
     (if has (cursorObservers d) obs
      then (Some ''Duplicate cursor observer added.'', d)
      else (None, d\<lparr>cursorObservers := add (cursorObservers d) obs\<rparr>))"

definition registerDirectionObserver :: "observer \<Rightarrow> Dispatcher \<Rightarrow> string option \<times> Dispatcher" where
  "registerDirectionObserver obs d =
     (if has (directionObservers d) obs
      then (Some ''Duplicate direction observer added.'', d)
      else (None, d\<lparr>directionObservers := add (directionObservers d) obs\<rparr>))"

text \<open>One notification: the calls it makes, in the order of the loop.\<close>

definition animCursorChanged :: "Duration \<Rightarrow> Dispatcher \<Rightarrow> Event list" where
  "animCursorChanged c d = map (\<lambda>obs. CursorObserverCall obs c) (cursorObservers d)"

definition animDirectionChanged :: "Direction \<Rightarrow> Dispatcher \<Rightarrow> Event list" where
  "animDirectionChanged dir d = map (\<lambda>obs. DirectionObserverCall obs dir) (directionObservers d)"

section \<open>Model and frame scheduler\<close>

record FrameScheduler =
  animating :: bool

record Model =
  cursor :: Duration
  lastCursorTime :: TimeStamp
  direction :: Direction
  breakPointType :: BreakPointType
  scheduler :: FrameScheduler
  tempo :: double
  dispatcher :: Dispatcher

text \<open>
  The model with the host around it: \<open>pendingFrames\<close> counts the callbacks handed to
  \<^verbatim>\<open>requestAnimationFrame\<close> that the host has not run yet (each of them is
  \<^verbatim>\<open>animFrame\<close> of the model's one scheduler), \<open>trace\<close> is the sequence of observable
  calls so far.
\<close>

record World =
  model :: Model
  pendingFrames :: nat
  trace :: "Event list"

definition requestAnimationFrame :: "World \<Rightarrow> World" where
  "requestAnimationFrame w = w\<lparr>pendingFrames := Suc (pendingFrames w)\<rparr>"

subsection \<open>FrameScheduler\<close>

definition isAnimating :: "World \<Rightarrow> bool" where
  "isAnimating w = animating (scheduler (model w))"

definition setAnimating :: "bool \<Rightarrow> World \<Rightarrow> World" where
  "setAnimating b w = w\<lparr>model := (model w)\<lparr>scheduler := (scheduler (model w))\<lparr>animating := b\<rparr>\<rparr>\<rparr>"

definition animFrame :: "(TimeStamp \<Rightarrow> World \<Rightarrow> World) \<Rightarrow> TimeStamp \<Rightarrow> World \<Rightarrow> World" where
  "animFrame callback timeStamp w =
     (let w1 = callback timeStamp w
      in if isAnimating w1 then requestAnimationFrame w1 else w1)"

definition start :: "World \<Rightarrow> World" where
  "start w = (if \<not> isAnimating w then requestAnimationFrame (setAnimating True w) else w)"

definition stop :: "World \<Rightarrow> World" where
  "stop w = setAnimating False w"

definition singleFrame :: "World \<Rightarrow> World" where
  "singleFrame w = stop (start w)"

text \<open>
  The host side of \<^verbatim>\<open>requestAnimationFrame\<close>, which is the browser's: a requested
  callback is invoked once, with a time stamp. Here the host runs one of the pending
  callbacks, if there is one; \<open>callback\<close> is the handler the scheduler was constructed
  with, which for the model's scheduler is \<open>frame\<close>.
\<close>

definition hostFrame :: "(TimeStamp \<Rightarrow> World \<Rightarrow> World) \<Rightarrow> TimeStamp \<Rightarrow> World \<Rightarrow> World option" where
  "hostFrame callback timeStamp w =
     (if pendingFrames w = 0 then None
      else Some (animFrame callback timeStamp (w\<lparr>pendingFrames := pendingFrames w - 1\<rparr>)))"

subsection \<open>Model\<close>

definition getCursor :: "World \<Rightarrow> Duration" where
  "getCursor w = cursor (model w)"

definition timeScaling :: "Model \<Rightarrow> double" where
  "timeScaling m = dmul (directionValue (direction m)) (tempo m)"

definition setDirection :: "Direction \<Rightarrow> World \<Rightarrow> World" where
  "setDirection dir w =
     w\<lparr>model := (model w)\<lparr>direction := dir\<rparr>,
       trace := trace w @ animDirectionChanged dir (dispatcher (model w))\<rparr>"

definition updateCursor :: "BreakPointModel \<Rightarrow> TimeStamp \<Rightarrow> World \<Rightarrow> World" where
  "updateCursor bpm timeStamp w =
     (if direction (model w) = Paused
      then w\<lparr>model := (model w)\<lparr>lastCursorTime := timeStamp\<rparr>\<rparr>
      else
        let m = model w;
            previousCursor = cursor m;
            elapsed = dsub timeStamp (lastCursorTime m);
            elapsed = (if dlt elapsed (Finite 0) then Finite 0 else elapsed);
            m1 = m\<lparr>cursor := dadd (cursor m) (dmul elapsed (timeScaling m)),
                   lastCursorTime := timeStamp\<rparr>;
            bp = breakPoint bpm (direction m1) (breakPointType m1) previousCursor;
            w1 = w\<lparr>model := m1,
                   trace := trace w @ [BreakPointCall (direction m1) (breakPointType m1) previousCursor]\<rparr>;
            isForwards = (direction m1 = Forwards);
            isPastBreakPoint = (if isForwards then dlt bp (cursor m1) else dlt (cursor m1) bp)
        in if isPastBreakPoint
           then stop (setDirection Paused (w1\<lparr>model := m1\<lparr>cursor := bp\<rparr>\<rparr>))
           else w1)"

definition frame :: "BreakPointModel \<Rightarrow> TimeStamp \<Rightarrow> World \<Rightarrow> World" where
  "frame bpm timeStamp w =
     (let w1 = updateCursor bpm timeStamp w
      in w1\<lparr>trace := trace w1 @ animCursorChanged (cursor (model w1)) (dispatcher (model w1))\<rparr>)"

definition setBreakPointType :: "BreakPointType \<Rightarrow> World \<Rightarrow> World" where
  "setBreakPointType t w = w\<lparr>model := (model w)\<lparr>breakPointType := t\<rparr>\<rparr>"

definition isPaused :: "World \<Rightarrow> bool" where
  "isPaused w = (direction (model w) = Paused)"

text \<open>\<open>now\<close> is the value that \<^verbatim>\<open>performance.now()\<close> returns during the call.\<close>

definition animateDirection :: "BreakPointModel \<Rightarrow> Direction \<Rightarrow> TimeStamp \<Rightarrow> World \<Rightarrow> World" where
  "animateDirection bpm dir now w =
     (if direction (model w) = dir then w
      else
        let w1 = updateCursor bpm now w;
            w2 = setDirection dir w1
        in if dir = Paused then stop w2 else start w2)"

definition playForward :: "BreakPointModel \<Rightarrow> TimeStamp \<Rightarrow> World \<Rightarrow> World" where
  "playForward bpm now w = animateDirection bpm Forwards now (setBreakPointType EntireMoveSequence w)"

definition pause :: "BreakPointModel \<Rightarrow> TimeStamp \<Rightarrow> World \<Rightarrow> World" where
  "pause bpm now w = animateDirection bpm Paused now w"

definition playBackward :: "BreakPointModel \<Rightarrow> TimeStamp \<Rightarrow> World \<Rightarrow> World" where
  "playBackward bpm now w = animateDirection bpm Backwards now (setBreakPointType EntireMoveSequence w)"

definition skipAndPauseTo :: "BreakPointModel \<Rightarrow> Duration \<Rightarrow> TimeStamp \<Rightarrow> World \<Rightarrow> World" where
  "skipAndPauseTo bpm duration now w =
     (let w1 = pause bpm now w;
          w2 = w1\<lparr>model := (model w1)\<lparr>cursor := duration\<rparr>\<rparr>
      in singleFrame w2)"

definition skipToStart :: "BreakPointModel \<Rightarrow> TimeStamp \<Rightarrow> World \<Rightarrow> World" where
  "skipToStart bpm now w = skipAndPauseTo bpm (firstBreakPoint bpm) now w"

definition skipToEnd :: "BreakPointModel \<Rightarrow> TimeStamp \<Rightarrow> World \<Rightarrow> World" where
  "skipToEnd bpm now w = skipAndPauseTo bpm (lastBreakPoint bpm) now w"

definition stepForward :: "BreakPointModel \<Rightarrow> TimeStamp \<Rightarrow> World \<Rightarrow> World" where
  "stepForward bpm now w = animateDirection bpm Forwards now (setBreakPointType Move w)"

definition stepBackward :: "BreakPointModel \<Rightarrow> TimeStamp \<Rightarrow> World \<Rightarrow> World" where
  "stepBackward bpm now w = animateDirection bpm Backwards now (setBreakPointType Move w)"

definition togglePausePlayForward :: "BreakPointModel \<Rightarrow> TimeStamp \<Rightarrow> World \<Rightarrow> World" where
  "togglePausePlayForward bpm now w = (if isPaused w then playForward bpm now w else pause bpm now w)"

text \<open>The field initialisers of the two classes, and the state of a host with nothing requested.\<close>

definition newDispatcher :: Dispatcher where
  "newDispatcher = \<lparr>cursorObservers = [], directionObservers = []\<rparr>"

definition newModel :: Model where
  "newModel =
     \<lparr>cursor = Finite 0, lastCursorTime = Finite 0, direction = Paused,
      breakPointType = EntireMoveSequence, scheduler = \<lparr>animating = False\<rparr>,
      tempo = dyadic 3 (- 1), dispatcher = newDispatcher\<rparr>"

definition newWorld :: World where
  "newWorld = \<lparr>model = newModel, pendingFrames = 0, trace = []\<rparr>"

section \<open>The spec's description of \<^verbatim>\<open>singleFrame\<close>\<close>

text \<open>
  Written from the spec's words, to be compared with \<open>singleFrame\<close> above: from a
  state that is not scheduling exactly one frame callback is requested, from a scheduling
  state none, and the scheduler is not scheduling afterwards. Nothing else changes.
\<close>

definition singleFrame_spec :: "World \<Rightarrow> World" where
  "singleFrame_spec w =
     (setAnimating False w)
       \<lparr>pendingFrames := (if isAnimating w then pendingFrames w else pendingFrames w + 1)\<rparr>"

section \<open>The five motion commands as data\<close>

text \<open>
  To state a property of every motion command at once: the commands, the direction each
  one requests, and the method each one is.
\<close>

datatype MotionCommand = PlayForward | PlayBackward | Pause | StepForward | StepBackward

fun requestedDirection :: "MotionCommand \<Rightarrow> Direction" where
  "requestedDirection PlayForward = Forwards"
| "requestedDirection PlayBackward = Backwards"
| "requestedDirection Pause = Paused"
| "requestedDirection StepForward = Forwards"
| "requestedDirection StepBackward = Backwards"

fun runCommand :: "BreakPointModel \<Rightarrow> MotionCommand \<Rightarrow> TimeStamp \<Rightarrow> World \<Rightarrow> World" where
  "runCommand bpm PlayForward now w = playForward bpm now w"
| "runCommand bpm PlayBackward now w = playBackward bpm now w"
| "runCommand bpm Pause now w = pause bpm now w"
| "runCommand bpm StepForward now w = stepForward bpm now w"
| "runCommand bpm StepBackward now w = stepBackward bpm now w"

section \<open>Reading a trace, and concrete inputs\<close>

text \<open>The calls made to direction observers and to cursor observers, in order.\<close>

fun directionCalls :: "Event list \<Rightarrow> (observer \<times> Direction) list" where
  "directionCalls [] = []"
| "directionCalls (DirectionObserverCall obs dir # es) = (obs, dir) # directionCalls es"
| "directionCalls (e # es) = directionCalls es"

fun cursorCalls :: "Event list \<Rightarrow> (observer \<times> Duration) list" where
  "cursorCalls [] = []"
| "cursorCalls (CursorObserverCall obs c # es) = (obs, c) # cursorCalls es"
| "cursorCalls (e # es) = cursorCalls es"

text \<open>
  A break point model for the concrete inputs: a time line from 0 to 10, where a move
  ends one unit from the cursor, or at the end of the time line if that is nearer.
\<close>

definition exampleBreakPoints :: BreakPointModel where
  "exampleBreakPoints =
     \<lparr>firstBreakPoint = dyadic 0 0, lastBreakPoint = dyadic 10 0,
      breakPoint = (\<lambda>dir t c.
        case t of
          EntireMoveSequence \<Rightarrow> (if dir = Forwards then dyadic 10 0 else dyadic 0 0)
        | Move \<Rightarrow>
            (if dir = Forwards
             then (if dlt (dadd c (dyadic 1 0)) (dyadic 10 0) then dadd c (dyadic 1 0)
                   else dyadic 10 0)
             else (if dlt (dyadic 0 0) (dsub c (dyadic 1 0)) then dsub c (dyadic 1 0)
                   else dyadic 0 0)))\<rparr>"

text \<open>A new model whose dispatcher has cursor observer 7 and direction observer 8.\<close>

definition observedWorld :: World where
  "observedWorld =
     newWorld\<lparr>model := newModel\<lparr>dispatcher :=
       snd (registerDirectionObserver 8 (snd (registerCursorObserver 7 newDispatcher)))\<rparr>\<rparr>"

section \<open>Facts about binary64 arithmetic\<close>

lemma roundHalfEven_shift: "roundHalfEven (a * 2 ^ j) (d + j) = roundHalfEven a d"
proof -
  have p: "(2::int) ^ (d + j) = 2 ^ d * 2 ^ j"
    by (simp add: power_add)
  have q: "(a * 2 ^ j) div (2 ^ d * 2 ^ j) = a div 2 ^ d"
    by simp
  have r: "(a * 2 ^ j) mod (2 ^ d * 2 ^ j) = (a mod 2 ^ d) * 2 ^ j"
    by simp
  have c1: "((2::int) ^ d * 2 ^ j < 2 * ((a mod 2 ^ d) * 2 ^ j)) = (2 ^ d < 2 * (a mod 2 ^ d))"
    using mult_less_cancel_right_pos [of "2 ^ j" "2 ^ d" "2 * (a mod 2 ^ d)"] by simp
  have c2: "(2 * ((a mod 2 ^ d) * 2 ^ j) = (2::int) ^ d * 2 ^ j) = (2 * (a mod 2 ^ d) = 2 ^ d)"
    using mult_cancel_right [of "2 * (a mod 2 ^ d)" "2 ^ j" "2 ^ d"] by simp
  show ?thesis
    unfolding roundHalfEven_def Let_def p q r c1 c2 ..
qed

lemma roundHalfEven_exact: "roundHalfEven (a * 2 ^ j) j = a"
  using roundHalfEven_shift [of a j 0] by (simp add: roundHalfEven_def)

lemma roundHalfEven_0 [simp]: "roundHalfEven a 0 = a"
  by (simp add: roundHalfEven_def)

lemma bitlen_shift: "bitlen (abs (n * 2 ^ j)) = (if n = 0 then 0 else bitlen \<bar>n\<bar> + int j)"
proof (cases "n = 0")
  case True
  then show ?thesis by simp
next
  case False
  then have "0 < \<bar>n\<bar>" by simp
  then have "bitlen (\<bar>n\<bar> * 2 ^ j) = bitlen \<bar>n\<bar> + int j"
    by (rule bitlen_pow2)
  with False show ?thesis by (simp add: abs_mult)
qed

lemma round64_0 [simp]: "round64 x 0 = Finite 0"
  by (simp add: round64_def roundHalfEven_def overflowThreshold_def)

lemma round64_shift: "round64 (x + j) (n * 2 ^ j) = round64 x n"
proof (cases "n = 0")
  case True
  then show ?thesis by simp
next
  case False
  let ?d = "max (nat (bitlen \<bar>n\<bar> - 53)) x"
  have pos: "0 < bitlen \<bar>n\<bar>"
    using False bitlen_eq_zero_iff [of "\<bar>n\<bar>"] bitlen_nonneg [of "\<bar>n\<bar>"] by simp
  have d: "max (nat (bitlen (abs (n * 2 ^ j)) - 53)) (x + j) = ?d + j"
    using False pos by (simp add: bitlen_shift max_def) linarith
  have r: "roundHalfEven (abs (n * 2 ^ j)) (?d + j) = roundHalfEven \<bar>n\<bar> ?d"
    using roundHalfEven_shift [of "\<bar>n\<bar>" j ?d] by (simp add: abs_mult)
  have e: "?d + j - (x + j) = ?d - x"
    by simp
  have s: "(n * 2 ^ j < 0) = (n < 0)"
    by (simp add: mult_less_0_iff)
  show ?thesis
    unfolding round64_def [of "x + j"] Let_def d r e s
    unfolding round64_def Let_def ..
qed

lemma round64_neg: "round64 x (- n) = dneg (round64 x n)"
proof (cases "n = 0")
  case True
  then show ?thesis by simp
next
  case False
  then show ?thesis by (auto simp: round64_def Let_def)
qed

lemma roundHalfEven_dvd:
  assumes "2 ^ d dvd a"
  shows "roundHalfEven a d * 2 ^ d = a"
proof -
  from assms obtain b where "a = b * 2 ^ d"
    by (auto simp: dvd_def mult.commute)
  then show ?thesis
    by (simp add: roundHalfEven_exact)
qed

lemma roundHalfEven_bounds:
  assumes "0 \<le> a"
  shows "a div 2 ^ d \<le> roundHalfEven a d" and "roundHalfEven a d \<le> a div 2 ^ d + 1"
  by (simp_all add: roundHalfEven_def Let_def)

lemma roundHalfEven_pos:
  assumes "0 < a"
  shows "0 < roundHalfEven a (nat (bitlen a - 53))"
proof (cases "bitlen a \<le> 53")
  case True
  with assms show ?thesis by simp
next
  case False
  let ?d = "nat (bitlen a - 53)"
  have "nat (bitlen a - 1) = 52 + ?d"
    using False by simp
  then have "2 ^ (52 + ?d) \<le> a"
    using bitlen_bounds [OF assms] by simp
  then have "(2::int) ^ 52 * 2 ^ ?d \<le> a"
    by (simp add: power_add)
  then have "((2::int) ^ 52 * 2 ^ ?d) div 2 ^ ?d \<le> a div 2 ^ ?d"
    by (rule zdiv_mono1) simp
  then have "(2::int) ^ 52 \<le> a div 2 ^ ?d"
    by simp
  then show ?thesis
    using roundHalfEven_bounds(1) [of a ?d] assms by simp
qed

lemma bitlen_abs_le_53: "(bitlen (abs m) \<le> 53) = (abs m < 2 ^ 53)"
  by (simp add: bitlen_le_iff_power)

lemma round64_small:
  assumes "abs m \<le> 2 ^ 53"
  shows "round64 0 (m * 2 ^ j) =
     (if overflowThreshold \<le> abs m * 2 ^ j then (if m < 0 then NegInf else PosInf)
      else Finite (m * 2 ^ j))"
proof (cases "m = 0")
  case True
  then show ?thesis by (simp add: overflowThreshold_def)
next
  case False
  let ?d = "nat (bitlen (abs (m * 2 ^ j)) - 53)"
  have b: "bitlen (abs (m * 2 ^ j)) = bitlen (abs m) + int j"
    using False by (simp add: bitlen_shift)
  have dvd: "2 ^ ?d dvd abs m * 2 ^ j"
  proof (cases "abs m < 2 ^ 53")
    case True
    then have "bitlen (abs m) \<le> 53"
      by (simp add: bitlen_abs_le_53)
    then have "?d \<le> j"
      using b by simp
    then have "(2::int) ^ ?d dvd 2 ^ j"
      by (rule le_imp_power_dvd)
    then show ?thesis
      by (rule dvd_mult)
  next
    case False
    with assms have m: "abs m = 2 ^ 53"
      by simp
    have "bitlen ((2::int) ^ 53) = 54"
      using bitlen_pow2 [of 1 53] by (simp add: compute_bitlen)
    then have "?d = Suc j"
      using b m by simp
    moreover have "abs m * 2 ^ j = 2 ^ 52 * 2 ^ Suc j"
      using m by simp
    ultimately show ?thesis
      by simp
  qed
  have k: "roundHalfEven (abs (m * 2 ^ j)) ?d * 2 ^ ?d = abs m * 2 ^ j"
    using roundHalfEven_dvd [OF dvd] by (simp add: abs_mult)
  have s: "(m * 2 ^ j < 0) = (m < 0)"
    by (simp add: mult_less_0_iff)
  show ?thesis
    unfolding round64_def Let_def max_0R diff_zero k s
    by (simp add: abs_if)
qed

lemma roundHalfEven_le:
  assumes "0 \<le> a" and "bitlen a - 53 \<le> int d"
  shows "roundHalfEven a d \<le> 2 ^ 53"
proof -
  have "bitlen a \<le> int (53 + d)"
    using assms(2) by simp
  then have "a < 2 ^ nat (int (53 + d))"
    unfolding bitlen_le_iff_power by simp
  then have "a < 2 ^ (53 + d)"
    unfolding nat_int .
  then have "a < 2 ^ 53 * 2 ^ d"
    by (simp add: power_add)
  moreover have "2 ^ d * (a div 2 ^ d) \<le> a"
  proof -
    have "2 ^ d * (a div 2 ^ d) + a mod 2 ^ d = a"
      by (rule mult_div_mod_eq)
    moreover have "0 \<le> a mod 2 ^ d"
      by simp
    ultimately show ?thesis
      by linarith
  qed
  ultimately have "2 ^ d * (a div 2 ^ d) < 2 ^ d * 2 ^ 53"
    by (simp only: mult.commute [of "2 ^ 53"])
  moreover have "(0::int) < 2 ^ d"
    by simp
  ultimately have "a div 2 ^ d < 2 ^ 53"
    by (simp only: mult_less_cancel_left_pos)
  then show ?thesis
    using roundHalfEven_bounds(2) [OF assms(1), of d] by simp
qed

lemma roundHalfEven_nonneg:
  assumes "0 \<le> a"
  shows "0 \<le> roundHalfEven a d"
proof -
  have "0 \<le> a div 2 ^ d"
    using assms by (simp add: pos_imp_zdiv_nonneg_iff)
  then show ?thesis
    using roundHalfEven_bounds(1) [OF assms, of d] by simp
qed

lemma isDouble_Finite_small:
  assumes "abs q \<le> 2 ^ 53" and "\<not> overflowThreshold \<le> abs q * 2 ^ j"
  shows "isDouble (Finite (q * 2 ^ j))"
  using round64_small [OF assms(1), of j] assms(2) by simp

lemma isDouble_round64: "isDouble (round64 x n)"
proof -
  define d where "d = max (nat (bitlen (abs n) - 53)) x"
  define q where "q = roundHalfEven (abs n) d"
  have q: "q \<le> 2 ^ 53" "0 \<le> q"
  proof -
    show "q \<le> 2 ^ 53"
      unfolding q_def d_def by (rule roundHalfEven_le) simp_all
    show "0 \<le> q"
      unfolding q_def by (rule roundHalfEven_nonneg) simp
  qed
  have r: "round64 x n =
     (if overflowThreshold \<le> q * 2 ^ (d - x) then (if n < 0 then NegInf else PosInf)
      else Finite (if n < 0 then - (q * 2 ^ (d - x)) else q * 2 ^ (d - x)))"
    unfolding round64_def Let_def q_def d_def ..
  show ?thesis
  proof (cases "overflowThreshold \<le> q * 2 ^ (d - x)")
    case True
    then show ?thesis
      unfolding r by simp
  next
    case False
    have a: "abs q = q" "abs (- q) = q"
      using q(2) by simp_all
    have pos: "isDouble (Finite (q * 2 ^ (d - x)))"
      by (rule isDouble_Finite_small) (simp_all only: a q False not_False_eq_True)
    have neg: "isDouble (Finite ((- q) * 2 ^ (d - x)))"
      by (rule isDouble_Finite_small) (simp_all only: a q False not_False_eq_True)
    have neg': "isDouble (Finite (- (q * 2 ^ (d - x))))"
      using neg by (simp only: mult_minus_left)
    show ?thesis
      unfolding r using False pos neg' by simp
  qed
qed

lemma isDouble_dneg: "isDouble x \<Longrightarrow> isDouble (dneg x)"
  using round64_neg [of 0] by (cases x) simp_all

lemma isDouble_dadd: "isDouble (dadd x y)"
  by (cases x; cases y) (simp_all add: isDouble_round64)

lemma isDouble_dmul: "isDouble (dmul x y)"
  by (cases x; cases y) (simp_all add: isDouble_round64)

lemma isDouble_dsub: "isDouble (dsub x y)"
  by (simp add: dsub_def isDouble_dadd)

lemma dlt_irrefl [simp]: "\<not> dlt x x"
  by (cases x) simp_all

lemma round64_negative:
  assumes "n < 0"
  shows "dlt (round64 0 n) (Finite 0)"
proof -
  have "0 < roundHalfEven (abs n) (nat (bitlen (abs n) - 53))"
    using assms by (intro roundHalfEven_pos) simp
  then show ?thesis
    using assms by (simp add: round64_def Let_def)
qed

lemma dsub_negative: "dlt x y \<Longrightarrow> dlt (dsub x y) (Finite 0)"
  by (cases x; cases y) (simp_all add: dsub_def round64_negative)

lemma dadd_zero: "isDouble x \<Longrightarrow> dadd x (Finite 0) = x"
  by (cases x) simp_all

lemma dmul_zero: "dmul (Finite 0) (Finite k) = Finite 0"
  by simp

lemma dyadic_Finite:
  assumes "canonical m e"
  shows "dyadic m e = Finite (m * 2 ^ nat (e + 1074))"
proof -
  have m: "abs m < 2 ^ 53"
    using assms by (simp add: canonical_def)
  have e: "- 1074 \<le> e" "nat (e + 1074) \<le> 2045"
    using assms unfolding canonical_def by arith+
  have "abs m * 2 ^ nat (e + 1074) < 2 ^ 53 * 2 ^ nat (e + 1074)"
    using m by simp
  also have "\<dots> \<le> 2 ^ 53 * (2::int) ^ 2045"
  proof (rule mult_left_mono)
    show "(2::int) ^ nat (e + 1074) \<le> 2 ^ 2045"
      using e(2) by (rule power_increasing) simp
  qed simp
  also have "\<dots> = overflowThreshold"
    by (simp add: overflowThreshold_def flip: power_add)
  finally have "\<not> overflowThreshold \<le> abs m * 2 ^ nat (e + 1074)"
    by simp
  then show ?thesis
    using round64_small [of m "nat (e + 1074)"] m e(1) by (simp add: dyadic_def)
qed

lemma isFiniteDouble_dyadic: "canonical m e \<Longrightarrow> isFiniteDouble (dyadic m e)"
  using isDouble_round64 [of 0 "m * 2 ^ nat (e + 1074)"]
  by (simp add: dyadic_Finite) (simp add: dyadic_def canonical_def dyadic_Finite [symmetric])

lemma dneg_dyadic: "dneg (dyadic m e) = dyadic (- m) e"
  by (simp add: dyadic_def round64_neg [symmetric])

lemma align:
  fixes a :: int
  assumes "- 1074 \<le> e" and "e \<le> ea"
  shows "a * 2 ^ nat (ea + 1074) = a * 2 ^ nat (ea - e) * 2 ^ nat (e + 1074)"
proof -
  have "nat (ea + 1074) = nat (ea - e) + nat (e + 1074)"
    using assms by arith
  then show ?thesis
    by (simp only: power_add mult.assoc)
qed

lemma dadd_dyadic:
  assumes "canonical a ea" and "canonical b eb"
  shows "dadd (dyadic a ea) (dyadic b eb) =
     dyadic (a * 2 ^ nat (ea - min ea eb) + b * 2 ^ nat (eb - min ea eb)) (min ea eb)"
proof -
  let ?e = "min ea eb"
  have e: "- 1074 \<le> ?e" "?e \<le> ea" "?e \<le> eb"
    using assms by (simp_all add: canonical_def)
  have "a * 2 ^ nat (ea + 1074) + b * 2 ^ nat (eb + 1074) =
        (a * 2 ^ nat (ea - ?e) + b * 2 ^ nat (eb - ?e)) * 2 ^ nat (?e + 1074)"
    by (simp only: align [OF e(1) e(2), of a] align [OF e(1) e(3), of b] distrib_right)
  then show ?thesis
    using e(1) by (simp add: dyadic_Finite assms) (simp add: dyadic_def)
qed

lemma dsub_dyadic:
  assumes "canonical a ea" and "canonical b eb"
  shows "dsub (dyadic a ea) (dyadic b eb) =
     dyadic (a * 2 ^ nat (ea - min ea eb) - b * 2 ^ nat (eb - min ea eb)) (min ea eb)"
proof -
  have "canonical (- b) eb"
    using assms(2) by (simp add: canonical_def)
  then show ?thesis
    using dadd_dyadic [OF assms(1), of "- b" eb] by (simp add: dsub_def dneg_dyadic)
qed

lemma dlt_dyadic:
  assumes "canonical a ea" and "canonical b eb"
  shows "dlt (dyadic a ea) (dyadic b eb) =
     (a * 2 ^ nat (ea - min ea eb) < b * 2 ^ nat (eb - min ea eb))"
proof -
  let ?e = "min ea eb"
  have e: "- 1074 \<le> ?e" "?e \<le> ea" "?e \<le> eb"
    using assms by (simp_all add: canonical_def)
  show ?thesis
    by (simp add: dyadic_Finite assms align [OF e(1) e(2), of a] align [OF e(1) e(3), of b])
qed

lemma dyadic_eq_iff:
  assumes "canonical a ea" and "canonical b eb"
  shows "(dyadic a ea = dyadic b eb) =
     (a * 2 ^ nat (ea - min ea eb) = b * 2 ^ nat (eb - min ea eb))"
proof -
  let ?e = "min ea eb"
  have e: "- 1074 \<le> ?e" "?e \<le> ea" "?e \<le> eb"
    using assms by (simp_all add: canonical_def)
  show ?thesis
    by (simp add: dyadic_Finite assms align [OF e(1) e(2), of a] align [OF e(1) e(3), of b])
qed

lemma dmul_dyadic:
  assumes "canonical a ea" and "canonical b eb"
  shows "dmul (dyadic a ea) (dyadic b eb) = dyadic (a * b) (ea + eb)"
proof (cases "- 1074 \<le> ea + eb")
  case True
  have "nat (ea + 1074) + nat (eb + 1074) = 1074 + nat (ea + eb + 1074)"
    using assms True unfolding canonical_def by arith
  moreover have "a * 2 ^ nat (ea + 1074) * (b * 2 ^ nat (eb + 1074)) =
        a * b * 2 ^ (nat (ea + 1074) + nat (eb + 1074))"
    by (simp only: power_add mult_ac)
  ultimately have "a * 2 ^ nat (ea + 1074) * (b * 2 ^ nat (eb + 1074)) =
        a * b * 2 ^ nat (ea + eb + 1074) * 2 ^ 1074"
    by (simp only: power_add mult_ac)
  then have "round64 1074 (a * 2 ^ nat (ea + 1074) * (b * 2 ^ nat (eb + 1074))) =
        round64 0 (a * b * 2 ^ nat (ea + eb + 1074))"
    using round64_shift [of 0 1074 "a * b * 2 ^ nat (ea + eb + 1074)"]
    by (simp only: add_0)
  then show ?thesis
    using True by (simp add: dyadic_Finite assms) (simp add: dyadic_def)
next
  case False
  let ?s = "nat (ea + 1074) + nat (eb + 1074)"
  have "nat (- 1074 - (ea + eb)) + ?s = 1074"
    using assms False unfolding canonical_def by arith
  moreover have "a * 2 ^ nat (ea + 1074) * (b * 2 ^ nat (eb + 1074)) = a * b * 2 ^ ?s"
    by (simp only: power_add mult_ac)
  ultimately have "round64 1074 (a * 2 ^ nat (ea + 1074) * (b * 2 ^ nat (eb + 1074))) =
        round64 (nat (- 1074 - (ea + eb))) (a * b)"
    using round64_shift [of "nat (- 1074 - (ea + eb))" ?s "a * b"] by (simp only:)
  then show ?thesis
    using False by (simp add: dyadic_Finite assms) (simp add: dyadic_def)
qed

lemma dyadic_even:
  assumes "even m" and "- 1074 \<le> e" and "e < 0"
  shows "dyadic m e = dyadic (m div 2) (e + 1)"
proof -
  have "nat (e + 1 + 1074) = Suc (nat (e + 1074))"
    using assms(2) by simp
  moreover have "m = m div 2 * 2"
    using assms(1) by simp
  ultimately have "m * 2 ^ nat (e + 1074) = m div 2 * 2 ^ nat (e + 1 + 1074)"
    by (metis mult.assoc power_Suc)
  then show ?thesis
    using assms(2) by (simp add: dyadic_def)
qed

lemma dyadic_round:
  assumes "- 1074 \<le> e" and "2 ^ 53 \<le> abs m" and "d = nat (bitlen (abs m) - 53)"
    and "q = roundHalfEven (abs m) d"
  shows "dyadic m e = dyadic (if m < 0 then - q else q) (e + int d)"
proof -
  let ?j = "nat (e + 1074)"
  have m0: "m \<noteq> 0"
    using assms(2) by auto
  have b: "54 \<le> bitlen (abs m)"
    using assms(2) by (simp add: bitlen_ge_iff_power)
  have "nat (bitlen (abs m) + int ?j - 53) = nat (bitlen (abs m) - 53) + ?j"
    using b by arith
  then have d: "nat (bitlen (abs (m * 2 ^ ?j)) - 53) = d + ?j"
    using m0 assms(3) by (simp only: bitlen_shift if_False)
  have r: "roundHalfEven (abs (m * 2 ^ ?j)) (d + ?j) = q"
    using roundHalfEven_shift [of "abs m" ?j d] assms(4) by (simp add: abs_mult)
  have s: "(m * 2 ^ ?j < 0) = (m < 0)"
    by (simp add: mult_less_0_iff)
  have q: "q \<le> 2 ^ 53" "0 \<le> q"
  proof -
    show "q \<le> 2 ^ 53"
      unfolding assms(4) by (rule roundHalfEven_le) (simp_all add: assms(3))
    show "0 \<le> q"
      unfolding assms(4) by (rule roundHalfEven_nonneg) simp
  qed
  have lhs: "dyadic m e =
     (if overflowThreshold \<le> q * 2 ^ (d + ?j) then (if m < 0 then NegInf else PosInf)
      else Finite (if m < 0 then - (q * 2 ^ (d + ?j)) else q * 2 ^ (d + ?j)))"
    using assms(1) unfolding dyadic_def round64_def Let_def max_0R diff_zero d r s by simp
  have j: "nat (e + int d + 1074) = d + ?j"
    using assms(1) by simp
  have rhs: "dyadic c (e + int d) =
     (if overflowThreshold \<le> abs c * 2 ^ (d + ?j) then (if c < 0 then NegInf else PosInf)
      else Finite (c * 2 ^ (d + ?j)))" if "abs c \<le> 2 ^ 53" for c
    using assms(1) round64_small [OF that, of "d + ?j"] by (simp add: dyadic_def j)
  show ?thesis
  proof (cases "q = 0")
    case True
    then show ?thesis
      using lhs rhs [of 0] by (simp add: overflowThreshold_def)
  next
    case False
    with q have "0 < q" by simp
    then show ?thesis
      using lhs rhs [of q] rhs [of "- q"] q by (simp split: if_splits)
  qed
qed

lemma bitlen_numeral: "bitlen (numeral n) = bitlen (numeral n div 2) + 1"
  by (subst compute_bitlen) simp

lemma bitlen_1 [simp]: "bitlen 1 = 1"
  by (subst compute_bitlen) simp

lemmas dyadic_calc =
  canonical_def dadd_dyadic dsub_dyadic dmul_dyadic dlt_dyadic dyadic_eq_iff dneg_dyadic dyadic_even

section \<open>Unfolding and basic facts\<close>

lemmas scheduler_defs =
  isAnimating_def setAnimating_def requestAnimationFrame_def start_def stop_def singleFrame_def

lemmas dispatcher_defs =
  has_def add_def registerCursorObserver_def registerDirectionObserver_def
  animCursorChanged_def animDirectionChanged_def

lemmas command_defs =
  playForward_def playBackward_def pause_def stepForward_def stepBackward_def
  animateDirection_def setBreakPointType_def

lemmas fixture_defs =
  exampleBreakPoints_def observedWorld_def newWorld_def newModel_def newDispatcher_def

lemmas run_defs =
  command_defs fixture_defs dispatcher_defs scheduler_defs updateCursor_def setDirection_def
  timeScaling_def frame_def hostFrame_def animFrame_def Let_def

lemma directionCalls_append: "directionCalls (xs @ ys) = directionCalls xs @ directionCalls ys"
  by (induction xs rule: directionCalls.induct) simp_all

lemma directionCalls_map:
  "directionCalls (map (\<lambda>obs. DirectionObserverCall obs dir) xs) = map (\<lambda>obs. (obs, dir)) xs"
  by (induction xs) simp_all

lemma directionCalls_animDirectionChanged:
  "directionCalls (animDirectionChanged dir d) = map (\<lambda>obs. (obs, dir)) (directionObservers d)"
  by (simp add: animDirectionChanged_def directionCalls_map)

lemma updateCursor_pendingFrames: "pendingFrames (updateCursor bpm ts w) = pendingFrames w"
  by (simp add: updateCursor_def Let_def setDirection_def scheduler_defs)

lemma updateCursor_not_animating:
  "\<not> isAnimating w \<Longrightarrow> \<not> isAnimating (updateCursor bpm ts w)"
  by (simp add: updateCursor_def Let_def setDirection_def scheduler_defs)

lemma updateCursor_Paused:
  "direction (model w) = Paused \<Longrightarrow>
   updateCursor bpm ts w = w\<lparr>model := (model w)\<lparr>lastCursorTime := ts\<rparr>\<rparr>"
  by (simp add: updateCursor_def)

lemma frame_pendingFrames: "pendingFrames (frame bpm ts w) = pendingFrames w"
  by (simp add: frame_def Let_def updateCursor_pendingFrames)

lemma frame_not_animating: "\<not> isAnimating w \<Longrightarrow> \<not> isAnimating (frame bpm ts w)"
  using updateCursor_not_animating [of w bpm ts] by (simp add: frame_def Let_def isAnimating_def)

lemma animateDirection_direction: "direction (model (animateDirection bpm dir now w)) = dir"
  by (simp add: animateDirection_def Let_def setDirection_def scheduler_defs)

lemma animateDirection_same:
  "direction (model w) = dir \<Longrightarrow> animateDirection bpm dir now w = w"
  by (simp add: animateDirection_def)

text \<open>
  Calculating with \<open>dyadic\<close>: the rules rewrite sums, differences, products and
  comparisons of exactly represented numbers, and bring the result to an odd mantissa or
  the exponent 0.
\<close>

lemma zero_dyadic: "Finite 0 = dyadic 0 0"
  by (simp add: dyadic_Finite canonical_def)

lemmas calc = dyadic_calc zero_dyadic

text \<open>
  The two products of the concrete inputs that are not exact: \<^verbatim>\<open>0.1 * 1.5\<close> and
  \<^verbatim>\<open>6.666666666666667 * 1.5\<close>.
\<close>

lemmas round_0_1_times_1_5 =
  dyadic_round [of "- 56" 10808639105689191 1 5404319552844596]

lemmas round_6_67_times_1_5 =
  dyadic_round [of "- 51" 22517998136852481 2 5629499534213120]

lemmas rounding = bitlen_numeral roundHalfEven_def

text \<open>What the cursor update needs of the arithmetic.\<close>

lemma dmul_one:
  assumes "isFiniteDouble x"
  shows "dmul (dyadic 1 0) x = x"
proof -
  from assms obtain k where x: "x = Finite k" and k: "round64 0 k = Finite k"
    by (cases x) simp_all
  have n: "nat (0 + 1074) = 1074"
    by simp
  have "dyadic 1 0 = Finite (1 * 2 ^ nat (0 + 1074))"
    by (rule dyadic_Finite) (simp add: canonical_def)
  then have "dmul (dyadic 1 0) x = round64 (0 + 1074) (k * 2 ^ 1074)"
    unfolding x n by (simp only: dmul.simps mult_1 add_0 mult.commute)
  then show ?thesis
    unfolding round64_shift x k .
qed

lemma dmul_minus_one:
  assumes "isFiniteDouble x"
  shows "dmul (dyadic (- 1) 0) x = dneg x"
proof -
  from assms obtain k where x: "x = Finite k" and k: "round64 0 k = Finite k"
    by (cases x) simp_all
  have n: "nat (0 + 1074) = 1074"
    by simp
  have "dyadic (- 1) 0 = Finite (- 1 * 2 ^ nat (0 + 1074))"
    by (rule dyadic_Finite) (simp add: canonical_def)
  then have "dmul (dyadic (- 1) 0) x = round64 (0 + 1074) (- k * 2 ^ 1074)"
    unfolding x n by (simp only: dmul.simps mult_1 add_0 mult.commute mult_minus_left mult_minus_right)
  then show ?thesis
    unfolding round64_shift round64_neg x k by simp
qed

lemma timeScaling_zero:
  assumes "isFiniteDouble (tempo m)"
  shows "dmul (Finite 0) (timeScaling m) = Finite 0"
proof -
  from assms obtain k where k: "tempo m = Finite k"
    by (cases "tempo m") simp_all
  have z: "dyadic 0 0 = Finite 0"
    by (simp add: zero_dyadic)
  show ?thesis
    using assms dmul_one [OF assms] dmul_minus_one [OF assms]
    by (cases "direction m") (simp_all add: timeScaling_def k z)
qed

lemma elapsed_not_later:
  assumes "isFiniteDouble t1" and "isFiniteDouble t2" and "\<not> dlt t1 t2"
  shows "(if dlt (dsub t2 t1) (Finite 0) then Finite 0 else dsub t2 t1) = Finite 0"
proof -
  from assms(1) obtain a where a: "t1 = Finite a"
    by (cases t1) simp_all
  from assms(2) obtain b where b: "t2 = Finite b"
    by (cases t2) simp_all
  show ?thesis
  proof (cases "b = a")
    case True
    then show ?thesis
      by (simp add: a b dsub_def)
  next
    case False
    with assms(3) have "dlt t2 t1"
      by (simp add: a b)
    then show ?thesis
      by (simp add: dsub_negative)
  qed
qed

section \<open>The per-frame cursor update\<close>

text \<open>
  C1. A cursor update while the direction is \<open>Forwards\<close> or \<open>Backwards\<close> calls
  \<^verbatim>\<open>breakPoint\<close> once, with the current direction, the current break point type and the
  cursor from before the advance. If the advanced cursor is strictly past the returned
  break point (greater when moving forwards, smaller when moving backwards), the cursor
  becomes the break point, one direction notification with \<open>Paused\<close> is delivered and
  the scheduler is stopped. Otherwise, and so when the advanced cursor is equal to the
  break point, the cursor is the advanced one, there is no notification and the
  direction and the scheduler are as before. The advanced cursor is the binary64 value
  the code computes: played from 0 with the break point at 10 and the tempo \<^verbatim>\<open>1.5\<close>, a
  frame at \<^verbatim>\<open>6.666666666666667\<close> lands on 10 exactly and playback goes on, a frame at 8
  passes it.
\<close>

theorem C1_updateCursor_breakPoint:
  assumes "direction (model w) \<noteq> Paused"
  shows "let m = model w;
             dir = direction m;
             previous = cursor m;
             difference = dsub ts (lastCursorTime m);
             elapsed = (if dlt difference (Finite 0) then Finite 0 else difference);
             advanced = dadd previous (dmul elapsed (dmul (directionValue dir) (tempo m)));
             bp = breakPoint bpm dir (breakPointType m) previous;
             overshoot = (dir = Forwards \<and> dlt bp advanced \<or> dir = Backwards \<and> dlt advanced bp);
             w' = updateCursor bpm ts w
         in trace w' = trace w @ BreakPointCall dir (breakPointType m) previous #
                         (if overshoot then animDirectionChanged Paused (dispatcher m) else [])
          \<and> (overshoot \<longrightarrow>
                cursor (model w') = bp \<and> direction (model w') = Paused \<and> \<not> isAnimating w')
          \<and> (\<not> overshoot \<longrightarrow>
                cursor (model w') = advanced \<and> direction (model w') = dir \<and>
                isAnimating w' = isAnimating w)
          \<and> (advanced = bp \<longrightarrow> \<not> overshoot)"
proof (cases "direction (model w)")
  case Forwards
  then show ?thesis
    by (simp add: updateCursor_def Let_def timeScaling_def setDirection_def scheduler_defs)
next
  case Paused
  with assms show ?thesis by simp
next
  case Backwards
  then show ?thesis
    by (simp add: updateCursor_def Let_def timeScaling_def setDirection_def scheduler_defs)
qed

theorem C1_witness:
  "direction (model (playForward exampleBreakPoints (dyadic 0 0) observedWorld)) \<noteq> Paused \<and>
   trace (updateCursor exampleBreakPoints (dyadic 8 0)
       (playForward exampleBreakPoints (dyadic 0 0) observedWorld)) =
     [DirectionObserverCall 8 Forwards, BreakPointCall Forwards EntireMoveSequence (dyadic 0 0),
      DirectionObserverCall 8 Paused] \<and>
   cursor (model (updateCursor exampleBreakPoints (dyadic 8 0)
       (playForward exampleBreakPoints (dyadic 0 0) observedWorld))) = dyadic 10 0 \<and>
   direction (model (updateCursor exampleBreakPoints (dyadic 8 0)
       (playForward exampleBreakPoints (dyadic 0 0) observedWorld))) = Paused \<and>
   \<not> isAnimating (updateCursor exampleBreakPoints (dyadic 8 0)
       (playForward exampleBreakPoints (dyadic 0 0) observedWorld)) \<and>
   trace (updateCursor exampleBreakPoints (dyadic 7505999378950827 (- 50))
       (playForward exampleBreakPoints (dyadic 0 0) observedWorld)) =
     [DirectionObserverCall 8 Forwards, BreakPointCall Forwards EntireMoveSequence (dyadic 0 0)] \<and>
   cursor (model (updateCursor exampleBreakPoints (dyadic 7505999378950827 (- 50))
       (playForward exampleBreakPoints (dyadic 0 0) observedWorld))) = dyadic 10 0 \<and>
   direction (model (updateCursor exampleBreakPoints (dyadic 7505999378950827 (- 50))
       (playForward exampleBreakPoints (dyadic 0 0) observedWorld))) = Forwards \<and>
   isAnimating (updateCursor exampleBreakPoints (dyadic 7505999378950827 (- 50))
       (playForward exampleBreakPoints (dyadic 0 0) observedWorld))"
proof -
  let ?w = "playForward exampleBreakPoints (dyadic 0 0) observedWorld"
  let ?m = "model ?w"
  let ?bp = "breakPoint exampleBreakPoints (direction ?m) (breakPointType ?m) (cursor ?m)"
  let ?adv = "\<lambda>ts. dadd (cursor ?m)
      (dmul (if dlt (dsub ts (lastCursorTime ?m)) (Finite 0) then Finite 0
             else dsub ts (lastCursorTime ?m))
        (dmul (directionValue (direction ?m)) (tempo ?m)))"
  let ?t = "dyadic 7505999378950827 (- 50)"
  have h: "direction ?m \<noteq> Paused"
    by (simp add: playForward_def animateDirection_direction)
  have m: "direction ?m = Forwards" "breakPointType ?m = EntireMoveSequence"
      "cursor ?m = dyadic 0 0" "lastCursorTime ?m = dyadic 0 0" "tempo ?m = dyadic 3 (- 1)"
    by (simp_all add: run_defs calc)
  have n: "isAnimating ?w" "trace ?w = [DirectionObserverCall 8 Forwards]"
      "animDirectionChanged Paused (dispatcher ?m) = [DirectionObserverCall 8 Paused]"
    by (simp_all add: run_defs calc)
  have bp0: "breakPoint exampleBreakPoints Forwards EntireMoveSequence (dyadic 0 0) = dyadic 10 0"
    by (simp add: exampleBreakPoints_def)
  have bp: "?bp = dyadic 10 0"
    unfolding m by (rule bp0)
  have a8: "?adv (dyadic 8 0) = dyadic 12 0"
    unfolding m by (simp add: calc)
  have a6: "?adv ?t = dyadic 10 0"
    unfolding m by (simp add: calc round_6_67_times_1_5 rounding)
  have o8: "dlt ?bp (?adv (dyadic 8 0))"
    unfolding bp a8 by (simp add: calc)
  have o6: "\<not> dlt ?bp (?adv ?t)"
    unfolding bp a6 by (simp add: calc)
  have r8: "trace (updateCursor exampleBreakPoints (dyadic 8 0) ?w) =
        trace ?w @ BreakPointCall (direction ?m) (breakPointType ?m) (cursor ?m) #
          animDirectionChanged Paused (dispatcher ?m) \<and>
      cursor (model (updateCursor exampleBreakPoints (dyadic 8 0) ?w)) = ?bp \<and>
      direction (model (updateCursor exampleBreakPoints (dyadic 8 0) ?w)) = Paused \<and>
      \<not> isAnimating (updateCursor exampleBreakPoints (dyadic 8 0) ?w)"
    using C1_updateCursor_breakPoint [OF h, of "dyadic 8 0" exampleBreakPoints, unfolded Let_def]
      o8 m(1)
    by simp
  have r6: "trace (updateCursor exampleBreakPoints ?t ?w) =
        trace ?w @ [BreakPointCall (direction ?m) (breakPointType ?m) (cursor ?m)] \<and>
      cursor (model (updateCursor exampleBreakPoints ?t ?w)) = ?adv ?t \<and>
      direction (model (updateCursor exampleBreakPoints ?t ?w)) = direction ?m \<and>
      isAnimating (updateCursor exampleBreakPoints ?t ?w) = isAnimating ?w"
    using C1_updateCursor_breakPoint [OF h, of ?t exampleBreakPoints, unfolded Let_def]
      o6 m(1)
    by simp
  show ?thesis
    using h r8 r6 unfolding a6 bp by (simp add: m n)
qed

text \<open>
  C5. With a time stamp smaller than the stored \<open>lastCursorTime\<close> the cursor can still
  move: skip to 12 on the time line that ends at 10, play forwards at time 5, and let a
  frame arrive with the time stamp 2. The elapsed time counts as 0 and the integration
  leaves the cursor at 12, but the cursor is past the break point 10, so the update puts
  it on 10 and pauses.
\<close>

theorem C5_counterexample:
  "direction (model (playForward exampleBreakPoints (dyadic 5 0)
       (skipAndPauseTo exampleBreakPoints (dyadic 12 0) (dyadic 0 0) observedWorld))) = Forwards \<and>
   lastCursorTime (model (playForward exampleBreakPoints (dyadic 5 0)
       (skipAndPauseTo exampleBreakPoints (dyadic 12 0) (dyadic 0 0) observedWorld))) = dyadic 5 0 \<and>
   dlt (dyadic 2 0) (dyadic 5 0) \<and>
   cursor (model (playForward exampleBreakPoints (dyadic 5 0)
       (skipAndPauseTo exampleBreakPoints (dyadic 12 0) (dyadic 0 0) observedWorld))) = dyadic 12 0 \<and>
   cursor (model (updateCursor exampleBreakPoints (dyadic 2 0)
       (playForward exampleBreakPoints (dyadic 5 0)
         (skipAndPauseTo exampleBreakPoints (dyadic 12 0) (dyadic 0 0) observedWorld)))) = dyadic 10 0 \<and>
   dyadic 10 0 \<noteq> dyadic 12 0 \<and>
   direction (model (updateCursor exampleBreakPoints (dyadic 2 0)
       (playForward exampleBreakPoints (dyadic 5 0)
         (skipAndPauseTo exampleBreakPoints (dyadic 12 0) (dyadic 0 0) observedWorld)))) = Paused"
  by (simp add: run_defs skipAndPauseTo_def calc)

text \<open>
  C5, as the code has it. In a cursor update while not paused, with a cursor that is a
  binary64 value and a finite tempo, a time stamp smaller than the stored
  \<open>lastCursorTime\<close> counts as no elapsed time, never as a negative one: the
  integration leaves the cursor where it is, and \<open>lastCursorTime\<close> becomes the
  delivered time stamp. The break point test then compares the unmoved cursor: if it is
  strictly past its break point, the cursor becomes the break point, \<open>Paused\<close> is
  notified and the scheduler is stopped; otherwise the cursor does not move and nothing
  else changes.
\<close>

theorem C5_stale_timestamp:
  assumes "direction (model w) \<noteq> Paused"
    and "dlt ts (lastCursorTime (model w))"
    and "isDouble (cursor (model w))"
    and "isFiniteDouble (tempo (model w))"
  shows "let m = model w;
             dir = direction m;
             bp = breakPoint bpm dir (breakPointType m) (cursor m);
             past = (dir = Forwards \<and> dlt bp (cursor m) \<or> dir = Backwards \<and> dlt (cursor m) bp);
             w' = updateCursor bpm ts w
         in lastCursorTime (model w') = ts
          \<and> cursor (model w') = (if past then bp else cursor m)
          \<and> trace w' = trace w @ BreakPointCall dir (breakPointType m) (cursor m) #
                          (if past then animDirectionChanged Paused (dispatcher m) else [])
          \<and> (past \<longrightarrow> direction (model w') = Paused \<and> \<not> isAnimating w')
          \<and> (\<not> past \<longrightarrow>
                w' = w\<lparr>model := m\<lparr>lastCursorTime := ts\<rparr>,
                       trace := trace w @ [BreakPointCall dir (breakPointType m) (cursor m)]\<rparr>)"
proof -
  have e: "dlt (dsub ts (lastCursorTime (model w))) (Finite 0)"
    using assms(2) by (rule dsub_negative)
  have a: "dadd (cursor (model w)) (dmul (Finite 0) (timeScaling (model w))) = cursor (model w)"
    using assms(3,4) by (simp add: timeScaling_zero dadd_zero)
  show ?thesis
  proof (cases "direction (model w)")
    case Forwards
    then show ?thesis
      using e a by (simp add: updateCursor_def Let_def setDirection_def scheduler_defs)
  next
    case Paused
    with assms(1) show ?thesis by simp
  next
    case Backwards
    then show ?thesis
      using e a by (simp add: updateCursor_def Let_def setDirection_def scheduler_defs)
  qed
qed

theorem C5_witness:
  "direction (model (playForward exampleBreakPoints (dyadic 5 0) observedWorld)) \<noteq> Paused \<and>
   dlt (dyadic 2 0) (lastCursorTime (model (playForward exampleBreakPoints (dyadic 5 0) observedWorld))) \<and>
   isDouble (cursor (model (playForward exampleBreakPoints (dyadic 5 0) observedWorld))) \<and>
   isFiniteDouble (tempo (model (playForward exampleBreakPoints (dyadic 5 0) observedWorld))) \<and>
   cursor (model (playForward exampleBreakPoints (dyadic 5 0) observedWorld)) = dyadic 0 0 \<and>
   cursor (model (updateCursor exampleBreakPoints (dyadic 2 0)
       (playForward exampleBreakPoints (dyadic 5 0) observedWorld))) = dyadic 0 0 \<and>
   lastCursorTime (model (updateCursor exampleBreakPoints (dyadic 2 0)
       (playForward exampleBreakPoints (dyadic 5 0) observedWorld))) = dyadic 2 0 \<and>
   cursor (model (playForward exampleBreakPoints (dyadic 5 0)
       (skipAndPauseTo exampleBreakPoints (dyadic 12 0) (dyadic 0 0) observedWorld))) = dyadic 12 0 \<and>
   cursor (model (updateCursor exampleBreakPoints (dyadic 2 0)
       (playForward exampleBreakPoints (dyadic 5 0)
         (skipAndPauseTo exampleBreakPoints (dyadic 12 0) (dyadic 0 0) observedWorld)))) = dyadic 10 0 \<and>
   direction (model (updateCursor exampleBreakPoints (dyadic 2 0)
       (playForward exampleBreakPoints (dyadic 5 0)
         (skipAndPauseTo exampleBreakPoints (dyadic 12 0) (dyadic 0 0) observedWorld)))) = Paused"
proof -
  let ?w = "playForward exampleBreakPoints (dyadic 5 0) observedWorld"
  let ?m = "model ?w"
  let ?bp = "breakPoint exampleBreakPoints (direction ?m) (breakPointType ?m) (cursor ?m)"
  let ?v = "playForward exampleBreakPoints (dyadic 5 0)
      (skipAndPauseTo exampleBreakPoints (dyadic 12 0) (dyadic 0 0) observedWorld)"
  let ?n = "model ?v"
  let ?bq = "breakPoint exampleBreakPoints (direction ?n) (breakPointType ?n) (cursor ?n)"
  have d: "direction ?m \<noteq> Paused" "direction ?n \<noteq> Paused"
    by (simp_all add: playForward_def animateDirection_direction)
  have m: "direction ?m = Forwards" "breakPointType ?m = EntireMoveSequence"
      "cursor ?m = dyadic 0 0" "lastCursorTime ?m = dyadic 5 0" "tempo ?m = dyadic 3 (- 1)"
    by (simp_all add: run_defs calc)
  have n: "direction ?n = Forwards" "breakPointType ?n = EntireMoveSequence"
      "cursor ?n = dyadic 12 0" "lastCursorTime ?n = dyadic 5 0" "tempo ?n = dyadic 3 (- 1)"
    by (simp_all add: run_defs skipAndPauseTo_def calc)
  have t: "dlt (dyadic 2 0) (lastCursorTime ?m)" "dlt (dyadic 2 0) (lastCursorTime ?n)"
    unfolding m n by (simp_all add: calc)
  have c: "isDouble (cursor ?m)" "isDouble (cursor ?n)"
    unfolding m n using isFiniteDouble_dyadic [of 0 0] isFiniteDouble_dyadic [of 12 0]
    by (simp_all add: canonical_def dyadic_Finite)
  have f: "isFiniteDouble (tempo ?m)" "isFiniteDouble (tempo ?n)"
    unfolding m n by (rule isFiniteDouble_dyadic, simp add: canonical_def)+
  have bp0: "breakPoint exampleBreakPoints Forwards EntireMoveSequence (dyadic 0 0) = dyadic 10 0"
      "breakPoint exampleBreakPoints Forwards EntireMoveSequence (dyadic 12 0) = dyadic 10 0"
    by (simp_all add: exampleBreakPoints_def)
  have bp: "?bp = dyadic 10 0" "?bq = dyadic 10 0"
    unfolding m n by (rule bp0)+
  have p: "\<not> dlt ?bp (cursor ?m)"
    by (simp only: bp) (simp add: m calc)
  have q: "dlt ?bq (cursor ?n)"
    by (simp only: bp) (simp add: n calc)
  have r: "lastCursorTime (model (updateCursor exampleBreakPoints (dyadic 2 0) ?w)) = dyadic 2 0 \<and>
      cursor (model (updateCursor exampleBreakPoints (dyadic 2 0) ?w)) = cursor ?m"
    using C5_stale_timestamp [OF d(1) t(1) c(1) f(1), of exampleBreakPoints, unfolded Let_def]
      p m(1)
    by simp
  have s: "cursor (model (updateCursor exampleBreakPoints (dyadic 2 0) ?v)) = ?bq \<and>
      direction (model (updateCursor exampleBreakPoints (dyadic 2 0) ?v)) = Paused"
    using C5_stale_timestamp [OF d(2) t(2) c(2) f(2), of exampleBreakPoints, unfolded Let_def]
      q n(1)
    by simp
  show ?thesis
    using d t c f r s unfolding bp by (simp add: m n)
qed

text \<open>
  C7. A frame delivered while the direction is \<open>Paused\<close> stores the delivered time stamp
  in \<open>lastCursorTime\<close>, leaves the cursor unchanged and notifies the cursor observers of
  that cursor. So after \<open>pause\<close>, a frame at any later time leaves the cursor where
  \<open>pause\<close> left it, and a following \<open>playForward\<close> starts from that cursor and from
  its own time, with no paused time counted.
\<close>

theorem C7_paused_frame:
  "(direction (model w) = Paused \<longrightarrow>
      frame bpm ts w =
        w\<lparr>model := (model w)\<lparr>lastCursorTime := ts\<rparr>,
          trace := trace w @ animCursorChanged (cursor (model w)) (dispatcher (model w))\<rparr>)
   \<and> cursor (model (frame bpm ts (pause bpm now w))) = cursor (model (pause bpm now w))
   \<and> lastCursorTime (model (frame bpm ts (pause bpm now w))) = ts
   \<and> cursor (model (playForward bpm now' (frame bpm ts (pause bpm now w)))) =
       cursor (model (pause bpm now w))
   \<and> lastCursorTime (model (playForward bpm now' (frame bpm ts (pause bpm now w)))) = now'"
proof -
  have p: "direction (model (pause bpm now w)) = Paused"
    by (simp add: pause_def animateDirection_direction)
  have f: "frame bpm ts v =
        v\<lparr>model := (model v)\<lparr>lastCursorTime := ts\<rparr>,
          trace := trace v @ animCursorChanged (cursor (model v)) (dispatcher (model v))\<rparr>"
    if "direction (model v) = Paused" for v
    using that by (simp add: frame_def updateCursor_Paused)
  show ?thesis
    using p by (simp add: f playForward_def animateDirection_def setBreakPointType_def
        updateCursor_Paused setDirection_def scheduler_defs Let_def)
qed

theorem C7_witness:
  "direction (model observedWorld) = Paused \<and>
   frame exampleBreakPoints (dyadic 5 0) observedWorld =
     observedWorld\<lparr>model := (model observedWorld)\<lparr>lastCursorTime := dyadic 5 0\<rparr>,
       trace := [CursorObserverCall 7 (dyadic 0 0)]\<rparr> \<and>
   cursor (model (pause exampleBreakPoints (dyadic 2 0) (playForward exampleBreakPoints (dyadic 0 0) observedWorld))) =
     dyadic 3 0 \<and>
   cursor (model (frame exampleBreakPoints (dyadic 7 0)
     (pause exampleBreakPoints (dyadic 2 0) (playForward exampleBreakPoints (dyadic 0 0) observedWorld)))) =
     dyadic 3 0"
proof -
  have d: "direction (model observedWorld) = Paused"
    by (simp add: fixture_defs)
  have n: "trace observedWorld @
      animCursorChanged (cursor (model observedWorld)) (dispatcher (model observedWorld)) =
      [CursorObserverCall 7 (dyadic 0 0)]"
    by (simp add: fixture_defs dispatcher_defs zero_dyadic)
  have c: "cursor (model (pause exampleBreakPoints (dyadic 2 0) (playForward exampleBreakPoints (dyadic 0 0) observedWorld))) =
      dyadic 3 0"
    by (simp add: run_defs calc)
  show ?thesis
    using d n c
      C7_paused_frame [of observedWorld exampleBreakPoints "dyadic 5 0"]
      C7_paused_frame [of "playForward exampleBreakPoints (dyadic 0 0) observedWorld" exampleBreakPoints
        "dyadic 7 0" "dyadic 2 0"]
    by simp
qed

section \<open>Motion commands\<close>

text \<open>
  C10. When the direction already is the one a motion command asks for, the command
  still overwrites the break point type (\<open>Move\<close> for the step commands,
  \<open>EntireMoveSequence\<close> for the play commands) and does nothing else: the cursor, its
  time stamp, the scheduler, the pending frames and the trace stay as they are.
\<close>

theorem C10_noop_command_overwrites_breakPointType:
  "(direction (model w) = Forwards \<longrightarrow>
      stepForward bpm now w = w\<lparr>model := (model w)\<lparr>breakPointType := Move\<rparr>\<rparr> \<and>
      playForward bpm now w = w\<lparr>model := (model w)\<lparr>breakPointType := EntireMoveSequence\<rparr>\<rparr>) \<and>
   (direction (model w) = Backwards \<longrightarrow>
      stepBackward bpm now w = w\<lparr>model := (model w)\<lparr>breakPointType := Move\<rparr>\<rparr> \<and>
      playBackward bpm now w = w\<lparr>model := (model w)\<lparr>breakPointType := EntireMoveSequence\<rparr>\<rparr>)"
  by (simp add: stepForward_def playForward_def stepBackward_def playBackward_def
      animateDirection_def setBreakPointType_def)

theorem C10_witness:
  "direction (model (playForward exampleBreakPoints (dyadic 0 0) observedWorld)) = Forwards \<and>
   breakPointType (model (playForward exampleBreakPoints (dyadic 0 0) observedWorld)) = EntireMoveSequence \<and>
   breakPointType (model (stepForward exampleBreakPoints (dyadic 1 0) (playForward exampleBreakPoints (dyadic 0 0) observedWorld))) = Move \<and>
   trace (stepForward exampleBreakPoints (dyadic 1 0) (playForward exampleBreakPoints (dyadic 0 0) observedWorld)) =
     trace (playForward exampleBreakPoints (dyadic 0 0) observedWorld) \<and>
   direction (model (stepBackward exampleBreakPoints (dyadic 0 0) observedWorld)) = Backwards \<and>
   breakPointType (model (playBackward exampleBreakPoints (dyadic 1 0) (stepBackward exampleBreakPoints (dyadic 0 0) observedWorld))) =
     EntireMoveSequence"
proof -
  have f: "direction (model (playForward exampleBreakPoints (dyadic 0 0) observedWorld)) = Forwards"
    by (simp add: playForward_def animateDirection_direction)
  have b: "direction (model (stepBackward exampleBreakPoints (dyadic 0 0) observedWorld)) = Backwards"
    by (simp add: stepBackward_def animateDirection_direction)
  have t: "breakPointType (model (playForward exampleBreakPoints (dyadic 0 0) observedWorld)) = EntireMoveSequence"
    by (simp add: command_defs fixture_defs dispatcher_defs updateCursor_def setDirection_def
        scheduler_defs)
  show ?thesis
    using f b t
      C10_noop_command_overwrites_breakPointType
        [of "playForward exampleBreakPoints (dyadic 0 0) observedWorld" exampleBreakPoints "dyadic 1 0"]
      C10_noop_command_overwrites_breakPointType
        [of "stepBackward exampleBreakPoints (dyadic 0 0) observedWorld" exampleBreakPoints "dyadic 1 0"]
    by simp
qed

text \<open>
  C3. From a paused state, \<open>playForward\<close> at time \<open>t1\<close> followed by \<open>pause\<close> at time
  \<open>t2\<close>, with no frame in between, does not leave the cursor unchanged in general:
  \<open>pause\<close> reconciles the cursor with the time elapsed since \<open>playForward\<close>. A new
  model played at time 0 and paused at time 2 has its cursor at 3.
\<close>

theorem C3_counterexample:
  "direction (model newWorld) = Paused \<and>
   cursor (model newWorld) = dyadic 0 0 \<and>
   cursor (model (pause exampleBreakPoints (dyadic 2 0)
       (playForward exampleBreakPoints (dyadic 0 0) newWorld))) = dyadic 3 0 \<and>
   dyadic 3 0 \<noteq> dyadic 0 0"
  by (simp add: run_defs calc)

text \<open>
  C3, as the code has it. The cursor after the two calls is the binary64 value
  \<^verbatim>\<open>cursor + elapsed * (1 * tempo)\<close>, where \<^verbatim>\<open>elapsed\<close> is \<^verbatim>\<open>t2 - t1\<close>, or 0 if that is
  negative; it is the forward \<open>EntireMoveSequence\<close> break point of the old cursor
  instead if that value is strictly past it. The cursor is unchanged when \<open>t2\<close> is not
  later than \<open>t1\<close>, both finite, the tempo is finite and the cursor is not past that
  break point. Played at time 0 and paused at \<^verbatim>\<open>0.1\<close>, a new model has its cursor at
  \<^verbatim>\<open>0.15000000000000002\<close>.
\<close>

theorem C3_playForward_pause_cursor:
  assumes "direction (model w) = Paused"
  shows "let c = cursor (model w);
             difference = dsub t2 t1;
             elapsed = (if dlt difference (Finite 0) then Finite 0 else difference);
             advanced = dadd c (dmul elapsed (dmul (directionValue Forwards) (tempo (model w))));
             bp = breakPoint bpm Forwards EntireMoveSequence c;
             c' = cursor (model (pause bpm t2 (playForward bpm t1 w)))
         in c' = (if dlt bp advanced then bp else advanced)
          \<and> (isFiniteDouble t1 \<and> isFiniteDouble t2 \<and> \<not> dlt t1 t2 \<and> isDouble c \<and>
              isFiniteDouble (tempo (model w)) \<and> \<not> dlt bp c \<longrightarrow> c' = c)"
proof -
  let ?c = "cursor (model w)"
  let ?e = "if dlt (dsub t2 t1) (Finite 0) then Finite 0 else dsub t2 t1"
  let ?s = "dmul (directionValue Forwards) (tempo (model w))"
  let ?bp = "breakPoint bpm Forwards EntireMoveSequence ?c"
  have r: "cursor (model (pause bpm t2 (playForward bpm t1 w))) =
      (if dlt ?bp (dadd ?c (dmul ?e ?s)) then ?bp else dadd ?c (dmul ?e ?s))"
    using assms
    by (simp add: command_defs updateCursor_def setDirection_def scheduler_defs Let_def
        timeScaling_def)
  have u: "dadd ?c (dmul ?e ?s) = ?c"
    if "isFiniteDouble t1" "isFiniteDouble t2" "\<not> dlt t1 t2" "isDouble ?c"
      "isFiniteDouble (tempo (model w))"
  proof -
    have "?e = Finite 0"
      using that(1-3) by (rule elapsed_not_later)
    moreover have "dmul (Finite 0) ?s = Finite 0"
    proof -
      from that(5) obtain k where "tempo (model w) = Finite k"
        by (cases "tempo (model w)") simp_all
      then show ?thesis
        using dmul_one [OF that(5)] by simp
    qed
    ultimately show ?thesis
      using that(4) by (simp only: dadd_zero)
  qed
  show ?thesis
    unfolding Let_def using r u by simp
qed

theorem C3_witness:
  "direction (model newWorld) = Paused \<and>
   cursor (model (pause exampleBreakPoints (dyadic 4 0)
       (playForward exampleBreakPoints (dyadic 4 0) newWorld))) = cursor (model newWorld) \<and>
   cursor (model (pause exampleBreakPoints (dyadic 2 0)
       (playForward exampleBreakPoints (dyadic 0 0) newWorld))) = dyadic 3 0 \<and>
   cursor (model (pause exampleBreakPoints (dyadic 8 0)
       (playForward exampleBreakPoints (dyadic 0 0) newWorld))) = dyadic 10 0 \<and>
   cursor (model (pause exampleBreakPoints (dyadic 3602879701896397 (- 55))
       (playForward exampleBreakPoints (dyadic 0 0) newWorld))) = dyadic 1351079888211149 (- 53)"
proof -
  let ?m = "model newWorld"
  let ?bp = "breakPoint exampleBreakPoints Forwards EntireMoveSequence (cursor ?m)"
  let ?adv = "\<lambda>t1 t2. dadd (cursor ?m)
      (dmul (if dlt (dsub t2 t1) (Finite 0) then Finite 0 else dsub t2 t1)
        (dmul (directionValue Forwards) (tempo ?m)))"
  let ?t = "dyadic 3602879701896397 (- 55)"
  have h: "direction ?m = Paused"
    by (simp add: fixture_defs)
  have m: "cursor ?m = dyadic 0 0" "tempo ?m = dyadic 3 (- 1)"
    by (simp_all add: fixture_defs calc)
  have bp0: "breakPoint exampleBreakPoints Forwards EntireMoveSequence (dyadic 0 0) = dyadic 10 0"
    by (simp add: exampleBreakPoints_def)
  have bp: "?bp = dyadic 10 0"
    unfolding m by (rule bp0)
  have f: "isFiniteDouble (dyadic 4 0)" "isFiniteDouble (tempo ?m)" "isDouble (cursor ?m)"
    unfolding m using isFiniteDouble_dyadic [of 4 0] isFiniteDouble_dyadic [of 3 "- 1"]
      isDouble_round64 [of 0 0]
    by (simp_all add: canonical_def zero_dyadic [symmetric])
  have n: "\<not> dlt (dyadic 4 0) (dyadic 4 0)" "\<not> dlt ?bp (cursor ?m)"
    by simp (simp only: bp, simp add: m calc)
  have a2: "?adv (dyadic 0 0) (dyadic 2 0) = dyadic 3 0"
    unfolding m by (simp add: calc)
  have a8: "?adv (dyadic 0 0) (dyadic 8 0) = dyadic 12 0"
    unfolding m by (simp add: calc)
  have at: "?adv (dyadic 0 0) ?t = dyadic 1351079888211149 (- 53)"
    unfolding m by (simp add: calc round_0_1_times_1_5 rounding)
  have c: "\<not> dlt (dyadic 10 0) (dyadic 3 0)" "dlt (dyadic 10 0) (dyadic 12 0)"
      "\<not> dlt (dyadic 10 0) (dyadic 1351079888211149 (- 53))"
    by (simp_all add: calc)
  have r4: "cursor (model (pause exampleBreakPoints (dyadic 4 0)
       (playForward exampleBreakPoints (dyadic 4 0) newWorld))) = cursor ?m"
    using C3_playForward_pause_cursor
      [OF h, of "dyadic 4 0" "dyadic 4 0" exampleBreakPoints, unfolded Let_def] f n
    by blast
  have r2: "cursor (model (pause exampleBreakPoints (dyadic 2 0)
       (playForward exampleBreakPoints (dyadic 0 0) newWorld))) = dyadic 3 0"
    using C3_playForward_pause_cursor
      [OF h, of "dyadic 2 0" "dyadic 0 0" exampleBreakPoints, unfolded Let_def a2 bp] c
    by simp
  have r8: "cursor (model (pause exampleBreakPoints (dyadic 8 0)
       (playForward exampleBreakPoints (dyadic 0 0) newWorld))) = dyadic 10 0"
    using C3_playForward_pause_cursor
      [OF h, of "dyadic 8 0" "dyadic 0 0" exampleBreakPoints, unfolded Let_def a8 bp] c
    by simp
  have rt: "cursor (model (pause exampleBreakPoints ?t
       (playForward exampleBreakPoints (dyadic 0 0) newWorld))) = dyadic 1351079888211149 (- 53)"
    using C3_playForward_pause_cursor
      [OF h, of ?t "dyadic 0 0" exampleBreakPoints, unfolded Let_def at bp] c
    by simp
  show ?thesis
    using h r4 r2 r8 rt by simp
qed

lemma animateDirection_breakPointType:
  "breakPointType (model (animateDirection bpm dir now w)) = breakPointType (model w)"
  by (simp add: animateDirection_def updateCursor_def Let_def setDirection_def scheduler_defs)

lemma setBreakPointType_same:
  "breakPointType (model w) = t \<Longrightarrow> setBreakPointType t w = w"
  by (simp add: setBreakPointType_def)

lemma setBreakPointType_direction:
  "direction (model (setBreakPointType t w)) = direction (model w)"
  by (simp add: setBreakPointType_def)

lemma prepared_command_twice:
  "animateDirection bpm dir t2 (setBreakPointType t (animateDirection bpm dir t1 (setBreakPointType t w)))
   = animateDirection bpm dir t1 (setBreakPointType t w)"
proof -
  let ?v = "animateDirection bpm dir t1 (setBreakPointType t w)"
  have "breakPointType (model ?v) = t"
    by (simp add: animateDirection_breakPointType) (simp add: setBreakPointType_def)
  then have "setBreakPointType t ?v = ?v"
    by (rule setBreakPointType_same)
  then show ?thesis
    by (simp add: animateDirection_same animateDirection_direction)
qed

lemma runCommand_direction: "direction (model (runCommand bpm cmd now w)) = requestedDirection cmd"
  by (cases cmd) (simp_all add: playForward_def playBackward_def pause_def stepForward_def
      stepBackward_def animateDirection_direction)

lemma runCommand_twice:
  "runCommand bpm cmd t2 (runCommand bpm cmd t1 w) = runCommand bpm cmd t1 w"
  by (cases cmd)
    (simp_all add: playForward_def playBackward_def pause_def stepForward_def stepBackward_def
      prepared_command_twice animateDirection_same animateDirection_direction)

lemma runCommand_same_direction:
  "direction (model w) = requestedDirection cmd \<Longrightarrow> trace (runCommand bpm cmd now w) = trace w"
  by (cases cmd)
    (simp_all add: playForward_def playBackward_def pause_def stepForward_def stepBackward_def
      animateDirection_def setBreakPointType_def)

lemma runCommand_from_Paused:
  "direction (model w) = Paused \<Longrightarrow> requestedDirection cmd \<noteq> Paused \<Longrightarrow>
   trace (runCommand bpm cmd now w) =
     trace w @ animDirectionChanged (requestedDirection cmd) (dispatcher (model w))"
  by (cases cmd)
    (simp_all add: playForward_def playBackward_def pause_def stepForward_def stepBackward_def
      animateDirection_def setBreakPointType_def updateCursor_Paused setDirection_def
      scheduler_defs Let_def)

lemma animateDirection_one_notification:
  assumes "direction (model w) \<noteq> dir"
    and "direction (model (updateCursor bpm now w)) = direction (model w)"
  shows "directionCalls (trace (animateDirection bpm dir now w)) =
     directionCalls (trace w) @ map (\<lambda>obs. (obs, dir)) (directionObservers (dispatcher (model w)))"
proof (cases "direction (model w) = Paused")
  case True
  with assms(1) show ?thesis
    by (simp add: animateDirection_def updateCursor_Paused setDirection_def scheduler_defs Let_def
        directionCalls_append directionCalls_animDirectionChanged)
next
  case False
  with assms show ?thesis
    by (simp add: animateDirection_def updateCursor_def setDirection_def scheduler_defs Let_def
        directionCalls_append directionCalls_animDirectionChanged split: if_splits)
qed

text \<open>
  C2. Two calls of the same motion command in a row do not always produce exactly one
  direction notification: \<open>pause\<close> twice on a paused model, which has one direction
  observer, produces none.
\<close>

theorem C2_counterexample:
  "direction (model observedWorld) = Paused \<and>
   directionObservers (dispatcher (model observedWorld)) = [8] \<and>
   directionCalls (trace (pause exampleBreakPoints (dyadic 0 0) (pause exampleBreakPoints (dyadic 0 0) observedWorld))) = [] \<and>
   length (directionCalls (trace (pause exampleBreakPoints (dyadic 0 0) (pause exampleBreakPoints (dyadic 0 0) observedWorld)))) \<noteq> 1"
  by (simp add: run_defs calc)

text \<open>
  C2, as the code has it. The second of two calls of the same motion command in a row
  changes nothing: the state, the pending frames and the trace after it are those after
  the first call. A direction request equal to the current direction returns the state
  as it is. The two calls make no observable call at all when the direction already was
  the requested one, and exactly one direction notification, of the requested
  direction, when the model was paused and the command is not \<open>pause\<close>; more generally
  a direction request for another direction delivers exactly one notification when its
  cursor update does not change the direction.
\<close>

theorem C2_repeated_command:
  "runCommand bpm cmd t2 (runCommand bpm cmd t1 w) = runCommand bpm cmd t1 w
   \<and> (direction (model w) = dir \<longrightarrow> animateDirection bpm dir now w = w)
   \<and> (direction (model w) = requestedDirection cmd \<longrightarrow>
        trace (runCommand bpm cmd t2 (runCommand bpm cmd t1 w)) = trace w)
   \<and> (direction (model w) = Paused \<and> requestedDirection cmd \<noteq> Paused \<longrightarrow>
        trace (runCommand bpm cmd t2 (runCommand bpm cmd t1 w)) =
          trace w @ animDirectionChanged (requestedDirection cmd) (dispatcher (model w)))
   \<and> (direction (model w) \<noteq> dir \<and>
        direction (model (updateCursor bpm now w)) = direction (model w) \<longrightarrow>
        directionCalls (trace (animateDirection bpm dir t2 (animateDirection bpm dir now w))) =
          directionCalls (trace w) @
          map (\<lambda>obs. (obs, dir)) (directionObservers (dispatcher (model w))))"
  using runCommand_twice [of bpm cmd t2 t1 w] animateDirection_same [of w dir bpm now]
    runCommand_same_direction [of w cmd bpm t1] runCommand_from_Paused [of w cmd bpm t1]
    animateDirection_one_notification [of w dir bpm now]
    animateDirection_same [of "animateDirection bpm dir now w" dir bpm t2]
  by (simp add: animateDirection_direction)

theorem C2_witness:
  "direction (model observedWorld) = Paused \<and>
   requestedDirection StepForward \<noteq> Paused \<and>
   trace (stepForward exampleBreakPoints (dyadic 1 0) (stepForward exampleBreakPoints (dyadic 0 0) observedWorld)) =
     [DirectionObserverCall 8 Forwards] \<and>
   direction (model observedWorld) = requestedDirection Pause \<and>
   trace (pause exampleBreakPoints (dyadic 1 0) (pause exampleBreakPoints (dyadic 0 0) observedWorld)) = [] \<and>
   direction (model (playForward exampleBreakPoints (dyadic 0 0) observedWorld)) \<noteq> Backwards \<and>
   direction (model (updateCursor exampleBreakPoints (dyadic 2 0) (playForward exampleBreakPoints (dyadic 0 0) observedWorld))) =
     direction (model (playForward exampleBreakPoints (dyadic 0 0) observedWorld)) \<and>
   directionCalls (trace (animateDirection exampleBreakPoints Backwards (dyadic 3 0)
       (animateDirection exampleBreakPoints Backwards (dyadic 2 0) (playForward exampleBreakPoints (dyadic 0 0) observedWorld)))) =
     [(8, Forwards), (8, Backwards)]"
proof -
  let ?p = "playForward exampleBreakPoints (dyadic 0 0) observedWorld"
  have d: "direction (model observedWorld) = Paused"
    by (simp add: fixture_defs)
  have o: "dispatcher (model observedWorld) = \<lparr>cursorObservers = [7], directionObservers = [8]\<rparr>"
       "trace observedWorld = []"
    by (simp_all add: fixture_defs dispatcher_defs)
  have r: "requestedDirection StepForward \<noteq> Paused"
    by simp
  have a: "trace (runCommand exampleBreakPoints StepForward (dyadic 1 0)
             (runCommand exampleBreakPoints StepForward (dyadic 0 0) observedWorld)) =
           trace observedWorld @ animDirectionChanged (requestedDirection StepForward)
             (dispatcher (model observedWorld))"
    using C2_repeated_command
      [where bpm = exampleBreakPoints and cmd = StepForward and ?t2.0 = "dyadic 1 0"
         and ?t1.0 = "dyadic 0 0"
         and w = observedWorld] d r
    by blast
  have d': "direction (model observedWorld) = requestedDirection Pause"
    using d by simp
  have b: "trace (runCommand exampleBreakPoints Pause (dyadic 1 0)
             (runCommand exampleBreakPoints Pause (dyadic 0 0) observedWorld)) = trace observedWorld"
    using C2_repeated_command
      [where bpm = exampleBreakPoints and cmd = Pause and ?t2.0 = "dyadic 1 0"
         and ?t1.0 = "dyadic 0 0"
         and w = observedWorld] d'
    by blast
  have p: "direction (model ?p) \<noteq> Backwards"
    by (simp add: playForward_def animateDirection_direction)
  have u: "direction (model (updateCursor exampleBreakPoints (dyadic 2 0) ?p)) = direction (model ?p)"
    by (simp add: run_defs calc)
  have t: "directionCalls (trace ?p) = [(8, Forwards)]"
          "directionObservers (dispatcher (model ?p)) = [8]"
    by (simp_all add: run_defs calc)
  have c: "directionCalls (trace (animateDirection exampleBreakPoints Backwards (dyadic 3 0)
       (animateDirection exampleBreakPoints Backwards (dyadic 2 0) ?p))) =
        directionCalls (trace ?p) @ map (\<lambda>obs. (obs, Backwards)) (directionObservers (dispatcher (model ?p)))"
    using C2_repeated_command
      [where bpm = exampleBreakPoints and ?t2.0 = "dyadic 3 0" and w = ?p and dir = Backwards
         and now = "dyadic 2 0"] p u
    by blast
  show ?thesis
    using d d' r a b p u c by (simp add: o t animDirectionChanged_def)
qed

text \<open>
  When the cursor update inside \<open>pause\<close> passes the break point, \<open>Paused\<close> is notified
  twice: once by \<open>updateCursor\<close> and once by \<open>animateDirection\<close>.
\<close>

lemma pause_past_breakPoint_notifies_twice:
  "directionCalls (trace (playForward exampleBreakPoints (dyadic 0 0) observedWorld)) = [(8, Forwards)] \<and>
   directionCalls (trace (pause exampleBreakPoints (dyadic 8 0) (playForward exampleBreakPoints (dyadic 0 0) observedWorld))) =
     [(8, Forwards), (8, Paused), (8, Paused)]"
  by (simp add: run_defs calc)

section \<open>The frame scheduler\<close>

text \<open>
  C6. \<open>stop\<close> is idempotent and changes nothing but the scheduling flag. A callback
  already requested from the host still runs after \<open>stop\<close>: it runs the frame handler
  once and requests no further callback. In general \<open>animFrame\<close> requests a further
  callback according to the flag as the handler leaves it.
\<close>

theorem C6_stop:
  "stop (stop w) = stop w
   \<and> model (stop w) = (model w)\<lparr>scheduler := (scheduler (model w))\<lparr>animating := False\<rparr>\<rparr>
   \<and> pendingFrames (stop w) = pendingFrames w
   \<and> trace (stop w) = trace w
   \<and> (0 < pendingFrames w \<longrightarrow>
        hostFrame (frame bpm) ts (stop w) =
          Some (frame bpm ts ((stop w)\<lparr>pendingFrames := pendingFrames w - 1\<rparr>))
        \<and> pendingFrames (the (hostFrame (frame bpm) ts (stop w))) = pendingFrames w - 1
        \<and> \<not> isAnimating (the (hostFrame (frame bpm) ts (stop w))))
   \<and> pendingFrames (animFrame (frame bpm) ts w) =
       pendingFrames w + (if isAnimating (frame bpm ts w) then 1 else 0)"
proof -
  let ?v = "(stop w)\<lparr>pendingFrames := pendingFrames w - 1\<rparr>"
  have na: "\<not> isAnimating ?v" by (simp add: scheduler_defs)
  have nf: "\<not> isAnimating (frame bpm ts ?v)" using na by (rule frame_not_animating)
  have h: "hostFrame (frame bpm) ts (stop w) = Some (frame bpm ts ?v)" if "0 < pendingFrames w"
    using that nf by (simp add: hostFrame_def animFrame_def Let_def stop_def setAnimating_def)
  have a: "pendingFrames (animFrame (frame bpm) ts w) =
       pendingFrames w + (if isAnimating (frame bpm ts w) then 1 else 0)"
    by (simp add: animFrame_def Let_def requestAnimationFrame_def frame_pendingFrames)
  have s: "stop (stop w) = stop w" by (simp add: scheduler_defs)
  show ?thesis
    using h nf a s by (simp add: frame_pendingFrames) (simp add: scheduler_defs)
qed

theorem C6_witness:
  "0 < pendingFrames (playForward exampleBreakPoints (dyadic 0 0) observedWorld) \<and>
   isAnimating (playForward exampleBreakPoints (dyadic 0 0) observedWorld) \<and>
   pendingFrames (the (hostFrame (frame exampleBreakPoints) (dyadic 2 0)
     (stop (playForward exampleBreakPoints (dyadic 0 0) observedWorld)))) = 0 \<and>
   \<not> isAnimating (the (hostFrame (frame exampleBreakPoints) (dyadic 2 0)
     (stop (playForward exampleBreakPoints (dyadic 0 0) observedWorld))))"
proof -
  let ?w = "playForward exampleBreakPoints (dyadic 0 0) observedWorld"
  have p: "pendingFrames ?w = 1"
    by (simp add: run_defs calc)
  have a: "isAnimating ?w"
    by (simp add: run_defs calc)
  have h: "0 < pendingFrames ?w"
    using p by simp
  have "pendingFrames (the (hostFrame (frame exampleBreakPoints) (dyadic 2 0) (stop ?w))) = pendingFrames ?w - 1
      \<and> \<not> isAnimating (the (hostFrame (frame exampleBreakPoints) (dyadic 2 0) (stop ?w)))"
    using C6_stop [of ?w exampleBreakPoints "dyadic 2 0"] h by blast
  then show ?thesis
    using p a by simp
qed

text \<open>
  C9. \<open>singleFrame\<close> is \<open>start\<close> followed by \<open>stop\<close>, and does what the spec says of
  it. From a state that is not scheduling it requests one callback, whose run of the
  handler requests no other. From a scheduling state it requests nothing, and the
  callback in flight runs the handler and requests no other, so the loop stops there.
\<close>

theorem C9_singleFrame:
  "singleFrame w = stop (start w)
   \<and> singleFrame w = singleFrame_spec w
   \<and> (\<not> isAnimating w \<longrightarrow>
        pendingFrames (singleFrame w) = pendingFrames w + 1
        \<and> hostFrame (frame bpm) ts (singleFrame w) =
            Some (frame bpm ts ((stop w)\<lparr>pendingFrames := pendingFrames w\<rparr>))
        \<and> pendingFrames (the (hostFrame (frame bpm) ts (singleFrame w))) = pendingFrames w)
   \<and> (isAnimating w \<longrightarrow>
        pendingFrames (singleFrame w) = pendingFrames w
        \<and> singleFrame w = stop w
        \<and> (0 < pendingFrames w \<longrightarrow>
             hostFrame (frame bpm) ts (singleFrame w) =
               Some (frame bpm ts ((stop w)\<lparr>pendingFrames := pendingFrames w - 1\<rparr>))
             \<and> pendingFrames (the (hostFrame (frame bpm) ts (singleFrame w))) = pendingFrames w - 1
             \<and> \<not> isAnimating (the (hostFrame (frame bpm) ts (singleFrame w)))))"
proof -
  have nf: "\<not> isAnimating (frame bpm ts ((stop w)\<lparr>pendingFrames := n\<rparr>))" for n
    by (rule frame_not_animating) (simp add: scheduler_defs)
  have stop_pending: "pendingFrames (stop w) = pendingFrames w"
    by (simp add: scheduler_defs)
  have h: "hostFrame (frame bpm) ts ((stop w)\<lparr>pendingFrames := Suc n\<rparr>) =
             Some (frame bpm ts ((stop w)\<lparr>pendingFrames := n\<rparr>))" for n
    using nf [of n] by (simp add: hostFrame_def animFrame_def Let_def)
  have h': "hostFrame (frame bpm) ts (stop w) =
             Some (frame bpm ts ((stop w)\<lparr>pendingFrames := pendingFrames w - 1\<rparr>))"
    if "0 < pendingFrames w"
    using that nf [of "pendingFrames w - 1"] stop_pending
    by (simp add: hostFrame_def animFrame_def Let_def)
  have d: "singleFrame w = stop (start w)"
    by (simp add: singleFrame_def)
  have eq: "singleFrame w = singleFrame_spec w"
    by (simp add: singleFrame_spec_def scheduler_defs)
  have off: "pendingFrames (singleFrame w) = pendingFrames w + 1
        \<and> hostFrame (frame bpm) ts (singleFrame w) =
            Some (frame bpm ts ((stop w)\<lparr>pendingFrames := pendingFrames w\<rparr>))
        \<and> pendingFrames (the (hostFrame (frame bpm) ts (singleFrame w))) = pendingFrames w"
    if "\<not> isAnimating w"
  proof -
    have "singleFrame w = (stop w)\<lparr>pendingFrames := Suc (pendingFrames w)\<rparr>"
      using that by (simp add: scheduler_defs)
    then show ?thesis by (simp add: h frame_pendingFrames)
  qed
  have on: "pendingFrames (singleFrame w) = pendingFrames w
        \<and> singleFrame w = stop w
        \<and> (0 < pendingFrames w \<longrightarrow>
             hostFrame (frame bpm) ts (singleFrame w) =
               Some (frame bpm ts ((stop w)\<lparr>pendingFrames := pendingFrames w - 1\<rparr>))
             \<and> pendingFrames (the (hostFrame (frame bpm) ts (singleFrame w))) = pendingFrames w - 1
             \<and> \<not> isAnimating (the (hostFrame (frame bpm) ts (singleFrame w))))"
    if "isAnimating w"
  proof -
    have "singleFrame w = stop w"
      using that by (simp add: scheduler_defs)
    then show ?thesis using nf [of "pendingFrames w - 1"] by (simp add: h' frame_pendingFrames stop_pending)
  qed
  show ?thesis
    using d eq off on by blast
qed

theorem C9_witness:
  "\<not> isAnimating observedWorld \<and>
   pendingFrames observedWorld = 0 \<and>
   pendingFrames (singleFrame observedWorld) = 1 \<and>
   pendingFrames (the (hostFrame (frame exampleBreakPoints) (dyadic 2 0) (singleFrame observedWorld))) = 0 \<and>
   isAnimating (playForward exampleBreakPoints (dyadic 0 0) observedWorld) \<and>
   pendingFrames (playForward exampleBreakPoints (dyadic 0 0) observedWorld) = 1 \<and>
   pendingFrames (singleFrame (playForward exampleBreakPoints (dyadic 0 0) observedWorld)) = 1 \<and>
   pendingFrames (the (hostFrame (frame exampleBreakPoints) (dyadic 2 0)
     (singleFrame (playForward exampleBreakPoints (dyadic 0 0) observedWorld)))) = 0 \<and>
   \<not> isAnimating (the (hostFrame (frame exampleBreakPoints) (dyadic 2 0)
     (singleFrame (playForward exampleBreakPoints (dyadic 0 0) observedWorld))))"
proof -
  let ?w = "playForward exampleBreakPoints (dyadic 0 0) observedWorld"
  have off: "\<not> isAnimating observedWorld" "pendingFrames observedWorld = 0"
    by (simp_all add: fixture_defs scheduler_defs)
  have on: "isAnimating ?w" "pendingFrames ?w = 1"
    by (simp_all add: run_defs calc)
  have a: "pendingFrames (singleFrame observedWorld) = pendingFrames observedWorld + 1 \<and>
      pendingFrames (the (hostFrame (frame exampleBreakPoints) (dyadic 2 0) (singleFrame observedWorld))) =
        pendingFrames observedWorld"
    using C9_singleFrame [of observedWorld exampleBreakPoints "dyadic 2 0"] off(1) by blast
  have h: "0 < pendingFrames ?w"
    using on(2) by simp
  have b: "pendingFrames (singleFrame ?w) = pendingFrames ?w \<and>
      pendingFrames (the (hostFrame (frame exampleBreakPoints) (dyadic 2 0) (singleFrame ?w))) =
        pendingFrames ?w - 1 \<and>
      \<not> isAnimating (the (hostFrame (frame exampleBreakPoints) (dyadic 2 0) (singleFrame ?w)))"
    using C9_singleFrame [of ?w exampleBreakPoints "dyadic 2 0"] on(1) h by blast
  show ?thesis
    using off on a b by simp
qed

section \<open>Skipping\<close>

text \<open>
  While the model plays, \<open>skipAndPauseTo\<close> pauses it, puts the cursor on the target and
  leaves the scheduler stopped, and it hands one more callback to the host than were
  pending.
\<close>

lemma skipAndPauseTo_playing:
  assumes "direction (model w) \<noteq> Paused"
  shows "direction (model (skipAndPauseTo bpm c now w)) = Paused \<and>
         cursor (model (skipAndPauseTo bpm c now w)) = c \<and>
         \<not> isAnimating (skipAndPauseTo bpm c now w) \<and>
         pendingFrames (skipAndPauseTo bpm c now w) = Suc (pendingFrames w)"
  using assms
  by (simp add: skipAndPauseTo_def pause_def animateDirection_def updateCursor_def setDirection_def
      scheduler_defs Let_def)

text \<open>
  C4. \<open>skipToStart\<close> on a model that plays forwards: a new model with cursor observer 7
  is played at time 0 and skipped to the start at time 2. The direction is then
  \<open>Paused\<close>, the cursor is \<open>firstBreakPoint\<close> and the scheduler is stopped, but two
  callbacks are pending with the host, the one of the playing loop and the one of
  \<open>singleFrame\<close>, and the two frames deliver two cursor notifications of that value,
  not one.
\<close>

theorem C4_skipToStart_two_frames:
  "direction (model (playForward exampleBreakPoints (dyadic 0 0) observedWorld)) = Forwards \<and>
   pendingFrames (playForward exampleBreakPoints (dyadic 0 0) observedWorld) = 1 \<and>
   firstBreakPoint exampleBreakPoints = dyadic 0 0 \<and>
   direction (model (skipToStart exampleBreakPoints (dyadic 2 0) (playForward exampleBreakPoints (dyadic 0 0) observedWorld))) = Paused \<and>
   cursor (model (skipToStart exampleBreakPoints (dyadic 2 0) (playForward exampleBreakPoints (dyadic 0 0) observedWorld))) =
     dyadic 0 0 \<and>
   \<not> isAnimating (skipToStart exampleBreakPoints (dyadic 2 0) (playForward exampleBreakPoints (dyadic 0 0) observedWorld)) \<and>
   pendingFrames (skipToStart exampleBreakPoints (dyadic 2 0) (playForward exampleBreakPoints (dyadic 0 0) observedWorld)) = 2 \<and>
   map_option (cursorCalls \<circ> trace)
     (Option.bind
       (hostFrame (frame exampleBreakPoints) (dyadic 3 0)
         (skipToStart exampleBreakPoints (dyadic 2 0) (playForward exampleBreakPoints (dyadic 0 0) observedWorld)))
       (hostFrame (frame exampleBreakPoints) (dyadic 4 0))) = Some [(7, dyadic 0 0), (7, dyadic 0 0)]"
  by (simp add: run_defs skipToStart_def skipAndPauseTo_def calc)

section \<open>Registration of observers\<close>

lemma count_list_map_inj:
  "inj f \<Longrightarrow> count_list (map f xs) (f x) = count_list xs x"
  by (induction xs) (auto dest: injD)

lemma count_list_distinct:
  "distinct xs \<Longrightarrow> x \<in> set xs \<Longrightarrow> count_list xs x = 1"
  by (induction xs) (auto simp: count_list_0_iff)

text \<open>
  C8. After an observer has been registered for an event type, registering it again for
  that type throws and leaves the dispatcher as it was. In a dispatcher whose listener
  list has no duplicate (which registration keeps), the observer is then called exactly
  once by a notification of that type. Registering a cursor observer leaves the
  direction observers as they are, and the other way round.
\<close>

theorem C8_duplicate_registration:
  "(let d1 = snd (registerCursorObserver obs d)
    in registerCursorObserver obs d1 = (Some ''Duplicate cursor observer added.'', d1)
     \<and> directionObservers d1 = directionObservers d
     \<and> (distinct (cursorObservers d) \<longrightarrow>
          distinct (cursorObservers d1) \<and>
          count_list (animCursorChanged c d1) (CursorObserverCall obs c) = 1))
   \<and>
   (let d1 = snd (registerDirectionObserver obs d)
    in registerDirectionObserver obs d1 = (Some ''Duplicate direction observer added.'', d1)
     \<and> cursorObservers d1 = cursorObservers d
     \<and> (distinct (directionObservers d) \<longrightarrow>
          distinct (directionObservers d1) \<and>
          count_list (animDirectionChanged dir d1) (DirectionObserverCall obs dir) = 1))"
proof -
  have ic: "inj (\<lambda>obs. CursorObserverCall obs c)" by (simp add: inj_def)
  have id: "inj (\<lambda>obs. DirectionObserverCall obs dir)" by (simp add: inj_def)
  have c1: "count_list (map (\<lambda>obs. CursorObserverCall obs c) xs) (CursorObserverCall obs c) = 1"
    if "distinct xs" "obs \<in> set xs" for xs
    using count_list_map_inj [OF ic, of xs obs] count_list_distinct [OF that] by simp
  have d1: "count_list (map (\<lambda>obs. DirectionObserverCall obs dir) xs) (DirectionObserverCall obs dir) = 1"
    if "distinct xs" "obs \<in> set xs" for xs
    using count_list_map_inj [OF id, of xs obs] count_list_distinct [OF that] by simp
  show ?thesis
    by (simp add: dispatcher_defs Let_def c1 d1)
qed

theorem C8_witness:
  "distinct (cursorObservers newDispatcher) \<and>
   distinct (directionObservers newDispatcher) \<and>
   registerCursorObserver 7 newDispatcher = (None, \<lparr>cursorObservers = [7], directionObservers = []\<rparr>) \<and>
   registerCursorObserver 7 \<lparr>cursorObservers = [7], directionObservers = []\<rparr> =
     (Some ''Duplicate cursor observer added.'', \<lparr>cursorObservers = [7], directionObservers = []\<rparr>) \<and>
   count_list (animCursorChanged (dyadic 3 0) \<lparr>cursorObservers = [7], directionObservers = []\<rparr>)
     (CursorObserverCall 7 (dyadic 3 0)) = 1 \<and>
   registerDirectionObserver 8 newDispatcher = (None, \<lparr>cursorObservers = [], directionObservers = [8]\<rparr>) \<and>
   registerDirectionObserver 8 \<lparr>cursorObservers = [], directionObservers = [8]\<rparr> =
     (Some ''Duplicate direction observer added.'', \<lparr>cursorObservers = [], directionObservers = [8]\<rparr>) \<and>
   count_list (animDirectionChanged Paused \<lparr>cursorObservers = [], directionObservers = [8]\<rparr>)
     (DirectionObserverCall 8 Paused) = 1"
proof -
  have n: "distinct (cursorObservers newDispatcher)" "distinct (directionObservers newDispatcher)"
    by (simp_all add: newDispatcher_def)
  have r: "registerCursorObserver 7 newDispatcher = (None, \<lparr>cursorObservers = [7], directionObservers = []\<rparr>)"
          "registerDirectionObserver 8 newDispatcher = (None, \<lparr>cursorObservers = [], directionObservers = [8]\<rparr>)"
    by (simp_all add: newDispatcher_def dispatcher_defs)
  show ?thesis
    using n r
      C8_duplicate_registration [where obs = 7 and d = newDispatcher and c = "dyadic 3 0"]
      C8_duplicate_registration [where obs = 8 and d = newDispatcher and dir = Paused]
    by (simp add: Let_def)
qed

end
